theory Spec2Isabelle
  imports
    Complex_Main
    "HOL-Library.AList"
    "HOL-Library.Char_ord"
    "HOL-Library.List_Lexorder"
    "HOL-Library.Log_Nat"
    "HOL-Library.Multiset"
    "HOL-Library.Product_Lexorder"
begin

section \<open>PopForecast: the enrichment and reconciliation layer\<close>

text \<open>
  A shallow embedding of the MusicBrainz prominence extractor
  (\<^verbatim>\<open>src/api/musicbrainz_client.py\<close>), its checkpointed runner
  (\<^verbatim>\<open>src/scripts/enrich_with_musicbrainz.py\<close>), the merge step
  (\<^verbatim>\<open>src/features/build_musicbrainz_features.py\<close>), the schema repair
  (\<^verbatim>\<open>src/scripts/fix_schema_drift.py\<close>) and the entity-resolution pass
  (\<^verbatim>\<open>src/scripts/enrich_with_wikidata.py\<close>).

  Conventions. A Python \<^verbatim>\<open>str\<close> is a \<^typ>\<open>string\<close> whose characters are the code
  points below 256; a \<^verbatim>\<open>dict\<close> whose keys are data is an association list in
  insertion order (\<^const>\<open>map_of\<close> reads it, \<^const>\<open>AList.update\<close> writes it as Python's
  item assignment does); a \<^verbatim>\<open>dict\<close> with a fixed set of keys is a record whose
  fields are \<^typ>\<open>'a option\<close> where the code reads them with \<^verbatim>\<open>.get\<close> or tests
  \<^verbatim>\<open>in\<close>; an exception is a value of \<open>py_exn\<close>; delays are in milliseconds;
  a Python float is the rational number that the binary64 value denotes, and every
  operation on floats rounds its exact result to binary64.
\<close>

datatype py_exn =
    WebServiceError | RequestException | JSONDecodeError | KeyError | ValueError
  | AttributeError | ZeroDivisionError | OverflowError | RetryError

subsection \<open>The cached prominence record\<close>

text \<open>The dictionary \<^verbatim>\<open>result\<close> of \<^verbatim>\<open>get_track_prominence\<close>, which is also the value
  stored per key in \<^verbatim>\<open>musicbrainz_enrichment_v1.json\<close>.\<close>

record prominence =
  release_title :: "string option"
  release_date :: "string option"
  release_type :: string
  track_count :: "int option"
  track_number :: "int option"
  found :: bool

definition empty_result :: prominence where
  "empty_result =
     \<lparr>release_title = None, release_date = None, release_type = ''unknown'',
      track_count = None, track_number = None, found = False\<rparr>"

subsection \<open>The merge step: \<^verbatim>\<open>extract_logic\<close>\<close>

record row =
  artist_name :: string
  song_name :: string

record mb_features =
  mb_found :: int
  mb_is_single :: int
  mb_track_number :: int
  mb_track_count :: int
  mb_prominence_ratio :: rat

text \<open>\<^verbatim>\<open>f"{a} || {b}"\<close>, the composite key of both the runner and the merge.\<close>

definition composite_key :: "string \<Rightarrow> string \<Rightarrow> string" where
  "composite_key a b = a @ '' || '' @ b"

text \<open>\<^verbatim>\<open>v or 1\<close> on an optional integer: \<^verbatim>\<open>None\<close> and \<^verbatim>\<open>0\<close> are falsy.\<close>

definition or_one :: "int option \<Rightarrow> int" where
  "or_one v = (case v of None \<Rightarrow> 1 | Some n \<Rightarrow> if n = 0 then 1 else n)"

text \<open>Rounding to the nearest integer, ties to the even one.\<close>

definition round_half_even :: "rat \<Rightarrow> int" where
  "round_half_even x =
     (let f = \<lfloor>x\<rfloor>; d = x - of_int f
      in if d < 1 / 2 then f else if 1 / 2 < d then f + 1
         else if even f then f else f + 1)"

text \<open>The binary exponent of a non-zero rational: the \<open>e\<close> with
  \<open>2 ^ e \<le> |q| < 2 ^ (e + 1)\<close>.\<close>

definition float_exponent :: "rat \<Rightarrow> int" where
  "float_exponent q =
     (let a = \<bar>q\<bar>
      in if 1 \<le> a then bitlen \<lfloor>a\<rfloor> - 1
         else (let b = bitlen \<lfloor>1 / a\<rfloor>
               in if a = 2 powi (1 - b) then 1 - b else - b))"

text \<open>The binary64 value nearest to a rational, ties to the even significand: 53
  significant bits, the least exponent \<open>-1022\<close> (below it the spacing stays
  \<open>2 ^ -1074\<close>), and \<^verbatim>\<open>OverflowError\<close> when the rounded value does not fit.\<close>

definition to_double :: "rat \<Rightarrow> py_exn + rat" where
  "to_double q =
     (if q = 0 then Inr 0
      else (let e = max (float_exponent q) (- 1022) - 52;
                x = of_int (round_half_even (q / 2 powi e)) * 2 powi e
            in if 2 powi 1024 \<le> \<bar>x\<bar> then Inl OverflowError else Inr x))"

text \<open>\<^verbatim>\<open>a / b\<close> on integers raises \<^verbatim>\<open>ZeroDivisionError\<close> when \<^verbatim>\<open>b\<close> is zero and
  \<^verbatim>\<open>OverflowError\<close> when the quotient is too large for a float; otherwise it is the
  quotient correctly rounded.\<close>

definition truediv :: "int \<Rightarrow> int \<Rightarrow> py_exn + rat" where
  "truediv a b = (if b = 0 then Inl ZeroDivisionError else to_double (of_int a / of_int b))"

text \<open>\<^verbatim>\<open>round(x, 4)\<close> on a float: the exact value of \<open>x\<close> is rounded to the nearest
  multiple of \<open>1/10000\<close>, ties to the even one, and that decimal is converted back to
  a float.\<close>

definition round4 :: "rat \<Rightarrow> py_exn + rat" where
  "round4 x = to_double (of_int (round_half_even (x * 10000)) / 10000)"

definition neutral_defaults :: mb_features where
  "neutral_defaults =
     \<lparr>mb_found = 0, mb_is_single = 1, mb_track_number = 1, mb_track_count = 1,
      mb_prominence_ratio = 0\<rparr>"

text \<open>\<^verbatim>\<open>data = mb_data.get(key, {})\<close>; \<^verbatim>\<open>data.get("found")\<close> is \<^verbatim>\<open>None\<close> on the empty
  dictionary, hence falsy.\<close>

definition data_found :: "prominence option \<Rightarrow> bool" where
  "data_found data = (case data of None \<Rightarrow> False | Some d \<Rightarrow> found d)"

definition extract_logic :: "(string \<times> prominence) list \<Rightarrow> row \<Rightarrow> py_exn + mb_features" where
  "extract_logic mb_data r =
     (let key = composite_key (artist_name r) (song_name r);
          data = map_of mb_data key;
          res = neutral_defaults
      in if data_found data then
           (let d = the data;
                res = res\<lparr>mb_found := 1\<rparr>;
                rel_type = release_type d;
                res = res\<lparr>mb_is_single := (if rel_type \<in> set [''Single'', ''EP''] then 1 else 0)\<rparr>;
                res = res\<lparr>mb_track_number := or_one (track_number d)\<rparr>;
                res = res\<lparr>mb_track_count := or_one (track_count d)\<rparr>
            in if mb_track_count res > 0 then
                 (case truediv (mb_track_number res) (mb_track_count res) of
                    Inl e \<Rightarrow> Inl e
                  | Inr q \<Rightarrow>
                      (case round4 q of
                         Inl e \<Rightarrow> Inl e
                       | Inr ratio \<Rightarrow> Inr (res\<lparr>mb_prominence_ratio := ratio\<rparr>)))
               else Inr res)
         else Inr res)"

subsection \<open>The prominence extractor: \<^verbatim>\<open>get_track_prominence\<close>\<close>

text \<open>The part of a \<^verbatim>\<open>musicbrainzngs.search_recordings\<close> result that the extractor
  reads. A field is \<open>None\<close> when its key is absent from the dictionary.\<close>

record release_group =
  rg_type :: "string option"
  secondary_type_list :: "string list option"

record track =
  number :: "string option"

record medium =
  track_list :: "track list option"
  medium_track_count :: "int option"

record release =
  title :: "string option"
  status :: "string option"
  date :: "string option"
  release_group :: "release_group option"
  medium_list :: "medium list option"

record recording =
  release_list :: "release list option"

record search_results =
  recording_list :: "recording list option"

text \<open>What the process does to the outside: a \<^verbatim>\<open>time.sleep\<close> of so many milliseconds,
  or one outbound request: a \<^verbatim>\<open>musicbrainzngs.search_recordings\<close> with its query, or a
  \<^verbatim>\<open>requests.get\<close> to the MusicBrainz artist search (with the artist name), to the
  MusicBrainz artist resource (with the MBID) or to the Wikidata SPARQL endpoint (with the
  QID).\<close>

datatype request =
  SearchRecordings string | ArtistSearch string | ArtistLookup string | Sparql string

datatype event = Sleep nat | Request request

text \<open>\<^verbatim>\<open>d.get(key, default)\<close> on an optional field.\<close>

definition get_or :: "'a \<Rightarrow> 'a option \<Rightarrow> 'a" where
  "get_or dflt v = (case v of None \<Rightarrow> dflt | Some x \<Rightarrow> x)"

text \<open>\<^verbatim>\<open>rel.get("release-group", {}).get(key)\<close>.\<close>

definition rg_get :: "(release_group \<Rightarrow> 'a option) \<Rightarrow> release \<Rightarrow> 'a option" where
  "rg_get field rel = (case release_group rel of None \<Rightarrow> None | Some rg \<Rightarrow> field rg)"

definition dquote :: string where
  "dquote = [CHR 0x22]"

definition strict_query :: "string \<Rightarrow> string \<Rightarrow> string" where
  "strict_query a t =
     ''artist:'' @ dquote @ a @ dquote @ '' AND recording:'' @ dquote @ t @ dquote"

definition loose_query :: "string \<Rightarrow> string \<Rightarrow> string" where
  "loose_query a t = a @ '' '' @ t"

definition bad_types :: "string list" where
  "bad_types =
     [''Compilation'', ''Live'', ''Mixtape/Street'', ''DJ-mix'', ''Broadcast'', ''Interview'']"

text \<open>An entry of \<^verbatim>\<open>valid_releases\<close>.\<close>

record candidate =
  cand_release :: release
  cand_date :: string
  cand_type :: string

text \<open>The body of the inner loop: \<open>None\<close> is \<^verbatim>\<open>continue\<close> (or a date shorter than four
  characters), \<open>Some\<close> the entry appended.\<close>

definition keep_release :: "release \<Rightarrow> candidate option" where
  "keep_release rel =
     (let status = get_or [] (status rel);
          primary_type = get_or ''unknown'' (rg_get rg_type rel);
          secondary_types = get_or [] (rg_get secondary_type_list rel)
      in if status \<noteq> ''Official'' then None
         else if list_ex (\<lambda>t. t \<in> set bad_types) secondary_types then None
         else if primary_type \<notin> set [''Album'', ''Single'', ''EP''] then None
         else (let release_date = get_or [] (date rel)
               in if 4 \<le> length release_date
                  then Some \<lparr>cand_release = rel, cand_date = release_date,
                             cand_type = primary_type\<rparr>
                  else None))"

definition valid_releases :: "recording list \<Rightarrow> candidate list" where
  "valid_releases recordings =
     concat (map (\<lambda>rec. List.map_filter keep_release (get_or [] (release_list rec)))
               recordings)"

definition type_priority :: "string \<Rightarrow> nat" where
  "type_priority t =
     (if t = ''Album'' then 0 else if t = ''EP'' then 1 else if t = ''Single'' then 2 else 3)"

text \<open>The sort key \<^verbatim>\<open>(x["date"][:4], type_priority.get(x["type"], 3), x["date"])\<close>.
  Tuples and strings compare lexicographically, characters by code point.\<close>

definition release_key :: "candidate \<Rightarrow> string \<times> nat \<times> string" where
  "release_key x = (take 4 (cand_date x), type_priority (cand_type x), cand_date x)"

text \<open>\<^verbatim>\<open>valid_releases.sort(key=...)\<close> is a stable sort, as \<^const>\<open>sort_key\<close> is;
  \<open>None\<close> when the list is empty and the code goes to the fallback.\<close>

definition best_valid_release :: "candidate list \<Rightarrow> release option" where
  "best_valid_release valid =
     (case sort_key release_key valid of [] \<Rightarrow> None | x # _ \<Rightarrow> Some (cand_release x))"

text \<open>The absolute fallback: \<^verbatim>\<open>recordings[0]["release-list"][0]\<close> when the first
  recording has a non-empty release list.\<close>

definition fallback_release :: "recording list \<Rightarrow> release option" where
  "fallback_release recordings =
     (case recordings of
        [] \<Rightarrow> None
      | rec # _ \<Rightarrow> (case release_list rec of Some (rel # _) \<Rightarrow> Some rel | _ \<Rightarrow> None))"

text \<open>\<^verbatim>\<open>str.isdigit\<close> holds of the decimal digits and of the superscript digits
  (U+00B2, U+00B3, U+00B9); \<^verbatim>\<open>int\<close> accepts the decimal digits only and raises
  \<^verbatim>\<open>ValueError\<close> otherwise.\<close>

definition isdecimal :: "char \<Rightarrow> bool" where
  "isdecimal c = (48 \<le> (of_char c :: nat) \<and> (of_char c :: nat) \<le> 57)"

definition isdigit :: "char \<Rightarrow> bool" where
  "isdigit c = (isdecimal c \<or> c = CHR 0xB2 \<or> c = CHR 0xB3 \<or> c = CHR 0xB9)"

definition py_int :: "string \<Rightarrow> py_exn + int" where
  "py_int s =
     (if s \<noteq> [] \<and> list_all isdecimal s
      then Inr (foldl (\<lambda>n c. 10 * n + (of_char c - 48)) 0 s)
      else Inl ValueError)"

text \<open>Step 4 on the chosen release. The result dictionary is mutated in place, so the
  function returns it together with the exception, if one was raised, at the moment it
  was raised. The library delivers \<^verbatim>\<open>track-count\<close> as an integer, on which \<^verbatim>\<open>int\<close> is
  the identity.\<close>

definition extract_medium :: "medium \<Rightarrow> prominence \<Rightarrow> py_exn option \<times> prominence" where
  "extract_medium m result =
     (let numbered =
            (case track_list m of
               Some (tr # _) \<Rightarrow>
                 (let track_num_str = get_or [] (number tr);
                      digits = filter isdigit track_num_str
                  in if digits \<noteq> [] then
                       (case py_int digits of
                          Inl e \<Rightarrow> (Some e, result)
                        | Inr n \<Rightarrow> (None, result\<lparr>track_number := Some n\<rparr>))
                     else (None, result))
             | _ \<Rightarrow> (None, result))
      in case numbered of
           (Some e, result) \<Rightarrow> (Some e, result)
         | (None, result) \<Rightarrow>
             (case medium_track_count m of
                Some c \<Rightarrow> (None, result\<lparr>track_count := Some c\<rparr>)
              | None \<Rightarrow> (None, result)))"

definition extract_metrics :: "release \<Rightarrow> prominence \<Rightarrow> py_exn option \<times> prominence" where
  "extract_metrics best_release result =
     (let result = result\<lparr>release_title := Some (get_or ''unknown'' (title best_release))\<rparr>;
          result = result\<lparr>release_date := Some (get_or ''unknown'' (date best_release))\<rparr>;
          result = result\<lparr>release_type := get_or ''unknown'' (rg_get rg_type best_release)\<rparr>;
          result =
            (if ''Compilation'' \<in> set (get_or [] (rg_get secondary_type_list best_release))
             then result\<lparr>release_type := ''Compilation''\<rparr> else result);
          measured =
            (case medium_list best_release of
               Some (m # _) \<Rightarrow> extract_medium m result
             | _ \<Rightarrow> (None, result))
      in case measured of
           (Some e, result) \<Rightarrow> (Some e, result)
         | (None, result) \<Rightarrow> (None, result\<lparr>found := True\<rparr>))"

text \<open>Steps 2 to 4, from the recordings found to the end of the \<^verbatim>\<open>try\<close> block.\<close>

definition process_recordings ::
    "recording list \<Rightarrow> prominence \<Rightarrow> py_exn option \<times> prominence" where
  "process_recordings recordings result =
     (if recordings = [] then (None, result)
      else (case best_valid_release (valid_releases recordings) of
              Some best_release \<Rightarrow> extract_metrics best_release result
            | None \<Rightarrow>
                (case fallback_release recordings of
                   Some best_release \<Rightarrow> extract_metrics best_release result
                 | None \<Rightarrow> (None, result))))"

text \<open>The \<^verbatim>\<open>try\<close> block. The search is the outside world: it takes the query and the
  world's state and returns the parsed response or raises. The value returned is the
  exception raised (if any), the result dictionary as it stands, the world after the
  calls, and the events of the block in order.\<close>

type_synonym 'w searcher = "string \<Rightarrow> 'w \<Rightarrow> (py_exn + search_results) \<times> 'w"

definition prominence_try ::
    "'w searcher \<Rightarrow> string \<Rightarrow> string \<Rightarrow> prominence \<Rightarrow> 'w
       \<Rightarrow> (py_exn option \<times> prominence) \<times> 'w \<times> event list" where
  "prominence_try search a t result w =
     (let query = strict_query a t in
      case search query w of
        (Inl e, w1) \<Rightarrow> ((Some e, result), w1, [Request (SearchRecordings query)])
      | (Inr search_results, w1) \<Rightarrow>
          (let recordings = get_or [] (recording_list search_results) in
           if recordings = [] then
             (let loose = loose_query a t in
              case search loose w1 of
                (Inl e, w2) \<Rightarrow> ((Some e, result), w2, [Request (SearchRecordings query), Request (SearchRecordings loose)])
              | (Inr search_results, w2) \<Rightarrow>
                  (process_recordings (get_or [] (recording_list search_results)) result,
                   w2, [Request (SearchRecordings query), Request (SearchRecordings loose)]))
           else (process_recordings recordings result, w1, [Request (SearchRecordings query)])))"

text \<open>The whole function: the sleep, the initial dictionary, the \<^verbatim>\<open>try\<close> block, and the
  handler, which logs the exception and falls through to \<^verbatim>\<open>return result\<close>.\<close>

definition get_track_prominence ::
    "'w searcher \<Rightarrow> string \<Rightarrow> string \<Rightarrow> 'w \<Rightarrow> (py_exn + prominence) \<times> 'w \<times> event list" where
  "get_track_prominence search a t w =
     (case prominence_try search a t empty_result w of
        ((raised, result), w', events) \<Rightarrow> (Inr result, w', Sleep 1000 # events))"

subsection \<open>The checkpointed runner: \<^verbatim>\<open>main\<close> of \<^verbatim>\<open>enrich_with_musicbrainz.py\<close>\<close>

text \<open>The variables of the loop, the content of the file \<^verbatim>\<open>DATA_OUT\<close> (\<open>None\<close> while it
  does not exist), the outside world and the events so far.\<close>

record 'w run_state =
  rs_results :: "(string \<times> prominence) list"
  rs_processed_since_save :: nat
  rs_data_out :: "(string \<times> prominence) list option"
  rs_world :: 'w
  rs_events :: "event list"

definition save_interval :: nat where
  "save_interval = 50"

text \<open>The \<^verbatim>\<open>for task in tasks\<close> loop; a task is the pair of \<^verbatim>\<open>artist_name\<close> and
  \<^verbatim>\<open>song_name\<close>. An exception out of the call would leave the loop and the program.\<close>

fun run_tasks ::
    "'w searcher \<Rightarrow> (string \<times> string) list \<Rightarrow> 'w run_state \<Rightarrow> py_exn + 'w run_state" where
  "run_tasks search [] st = Inr st"
| "run_tasks search ((artist, track) # tasks) st =
     (let dict_key = composite_key artist track in
      if map_of (rs_results st) dict_key \<noteq> None then run_tasks search tasks st
      else (case get_track_prominence search artist track (rs_world st) of
              (Inl e, w', events) \<Rightarrow> Inl e
            | (Inr mb_data, w', events) \<Rightarrow>
                (let st = st\<lparr>rs_results := AList.update dict_key mb_data (rs_results st),
                               rs_world := w', rs_events := rs_events st @ events\<rparr>;
                     st = st\<lparr>rs_processed_since_save := rs_processed_since_save st + 1\<rparr>;
                     st = (if save_interval \<le> rs_processed_since_save st
                           then st\<lparr>rs_data_out := Some (rs_results st),
                                   rs_processed_since_save := 0\<rparr>
                           else st)
                 in run_tasks search tasks st)))"

text \<open>From loading the existing progress to the final save. The state returned holds the
  file as written and the events of this run.\<close>

definition main_run ::
    "'w searcher \<Rightarrow> (string \<times> string) list \<Rightarrow> (string \<times> prominence) list option \<Rightarrow> 'w
       \<Rightarrow> py_exn + 'w run_state" where
  "main_run search tasks data_out w =
     (let results = (case data_out of None \<Rightarrow> [] | Some loaded \<Rightarrow> loaded) in
      case run_tasks search tasks
             \<lparr>rs_results = results, rs_processed_since_save = 0, rs_data_out = data_out,
              rs_world = w, rs_events = []\<rparr> of
        Inl e \<Rightarrow> Inl e
      | Inr st \<Rightarrow> Inr (st\<lparr>rs_data_out := Some (rs_results st)\<rparr>))"

subsection \<open>The schema repair: \<^verbatim>\<open>clean_redundant_columns\<close>\<close>

text \<open>A table is the list of its columns in order, each a label with its values; labels
  may repeat, as in pandas.\<close>

type_synonym 'c table = "(string \<times> 'c) list"

text \<open>\<^verbatim>\<open>s.endswith(suffix)\<close>.\<close>

definition endswith :: "string \<Rightarrow> string \<Rightarrow> bool" where
  "endswith s suffix =
     (length suffix \<le> length s \<and> drop (length s - length suffix) s = suffix)"

text \<open>\<^verbatim>\<open>col.replace('_x', '')\<close>: every occurrence of \<^verbatim>\<open>_x\<close>, scanned from the left and
  without overlap, is removed.\<close>

fun replace_x :: "string \<Rightarrow> string" where
  "replace_x [] = []"
| "replace_x [c] = [c]"
| "replace_x (c # d # cs) =
     (if c = CHR ''_'' \<and> d = CHR ''x'' then replace_x cs else c # replace_x (d # cs))"

text \<open>\<^verbatim>\<open>df.rename(columns=rename_map)\<close>, where \<^verbatim>\<open>rename_map\<close> maps each label that ends
  with \<^verbatim>\<open>_x\<close> to \<^verbatim>\<open>col.replace('_x', '')\<close>.\<close>

definition rename_columns :: "'c table \<Rightarrow> 'c table" where
  "rename_columns df =
     map (\<lambda>(col, values). (if endswith col ''_x'' then replace_x col else col, values)) df"

definition cols_to_drop :: "'c table \<Rightarrow> string list" where
  "cols_to_drop df = filter (\<lambda>col. endswith col ''_y'') (map fst df)"

text \<open>\<^verbatim>\<open>df.drop(columns=labels)\<close> raises \<^verbatim>\<open>KeyError\<close> when a label is not a column, and
  removes every column that carries one of the labels.\<close>

definition drop_columns :: "string list \<Rightarrow> 'c table \<Rightarrow> py_exn + 'c table" where
  "drop_columns labels df =
     (if list_ex (\<lambda>l. l \<notin> fst ` set df) labels then Inl KeyError
      else Inr (filter (\<lambda>(col, values). col \<notin> set labels) df))"

text \<open>Steps 1 to 3 of \<^verbatim>\<open>clean_redundant_columns\<close>, from the table read to the table
  written back.\<close>

definition clean_redundant_columns :: "'c table \<Rightarrow> py_exn + 'c table" where
  "clean_redundant_columns df =
     (case drop_columns (cols_to_drop df) (rename_columns df) of
        Inl e \<Rightarrow> Inl e
      | Inr df_clean \<Rightarrow>
          if ''Unnamed: 0'' \<in> fst ` set df_clean
          then drop_columns [''Unnamed: 0''] df_clean
          else Inr df_clean)"

subsection \<open>The entity-resolution pass: \<^verbatim>\<open>enrich_with_wikidata.py\<close>\<close>

subsubsection \<open>String utilities\<close>

text \<open>\<^verbatim>\<open>str.isspace\<close>, which is also what \<^verbatim>\<open>\s\<close> matches and \<^verbatim>\<open>str.strip\<close> removes:
  below 256 these are the code points 9 to 13, 28 to 32, 133 and 160.\<close>

definition is_space :: "char \<Rightarrow> bool" where
  "is_space c =
     (let n = (of_char c :: nat)
      in (9 \<le> n \<and> n \<le> 13) \<or> (28 \<le> n \<and> n \<le> 32) \<or> n = 133 \<or> n = 160)"

definition strip :: "string \<Rightarrow> string" where
  "strip s = rev (dropWhile is_space (rev (dropWhile is_space s)))"

text \<open>\<^verbatim>\<open>re.sub(r'\s+', ' ', s)\<close>: every maximal run of whitespace becomes one space.\<close>

function collapse_spaces :: "string \<Rightarrow> string" where
  "collapse_spaces [] = []"
| "collapse_spaces (c # cs) =
     (if is_space c then CHR '' '' # collapse_spaces (dropWhile is_space cs)
      else c # collapse_spaces cs)"
  by pat_completeness auto
termination
  by (relation "measure length") (auto simp: length_dropWhile_le less_Suc_eq_le)

definition normalize_name :: "string \<Rightarrow> string" where
  "normalize_name s = collapse_spaces (strip s)"

text \<open>\<^verbatim>\<open>str.lower\<close> on the code points below 256.\<close>

definition lower_char :: "char \<Rightarrow> char" where
  "lower_char c =
     (let n = (of_char c :: nat)
      in if (65 \<le> n \<and> n \<le> 90) \<or> (192 \<le> n \<and> n \<le> 222 \<and> n \<noteq> 215)
         then char_of (n + 32) else c)"

definition lower :: "string \<Rightarrow> string" where
  "lower s = map lower_char s"

text \<open>\<^verbatim>\<open>sep.join(parts)\<close>.\<close>

fun join :: "string \<Rightarrow> string list \<Rightarrow> string" where
  "join sep [] = []"
| "join sep [p] = p"
| "join sep (p # q # ps) = p @ sep @ join sep (q # ps)"

text \<open>\<^verbatim>\<open>list(dict.fromkeys(xs))\<close>: the first occurrence of each element, in order.\<close>

definition fromkeys :: "'a list \<Rightarrow> 'a list" where
  "fromkeys xs = foldl (\<lambda>seen x. if x \<in> set seen then seen else seen @ [x]) [] xs"

text \<open>\<^verbatim>\<open>s.split(sep)\<close> for a non-empty separator; \<open>cur\<close> is the piece being read.\<close>

fun split_on :: "string \<Rightarrow> string \<Rightarrow> string \<Rightarrow> string list" where
  "split_on sep cur [] = [cur]"
| "split_on sep cur (c # cs) =
     (if sep \<noteq> [] \<and> take (length sep) (c # cs) = sep
      then cur # split_on sep [] (drop (length sep - 1) cs)
      else split_on sep (cur @ [c]) cs)"

text \<open>The separator pattern
  \<^verbatim>\<open>(?i)\s+feat\.?\s+|\s+ft\.?\s+|\s+&\s+|\s+x\s+|\s+with\s+|\s+vs\.?\s+|\s+presents\s+|\s+features\s+\<close>.
  Each alternative is a run of whitespace, a keyword without regard to case, a full stop
  where the pattern allows one, and a run of whitespace.\<close>

definition separators :: "(string \<times> bool) list" where
  "separators =
     [(''feat'', True), (''ft'', True), (''&'', False), (''x'', False), (''with'', False),
      (''vs'', True), (''presents'', False), (''features'', False)]"

text \<open>One alternative at the start of \<open>s\<close>: what is left of \<open>s\<close> after the match.\<close>

definition match_alternative :: "string \<times> bool \<Rightarrow> string \<Rightarrow> string option" where
  "match_alternative alt s =
     (let (keyword, dot) = alt;
          s1 = dropWhile is_space s
      in if \<not> (s \<noteq> [] \<and> is_space (hd s)) then None
         else if lower (take (length keyword) s1) \<noteq> keyword then None
         else (let s2 = drop (length keyword) s1;
                   s3 = (if dot \<and> s2 \<noteq> [] \<and> hd s2 = CHR ''.'' \<and> tl s2 \<noteq> []
                            \<and> is_space (hd (tl s2))
                         then tl s2 else s2)
               in if s3 \<noteq> [] \<and> is_space (hd s3) then Some (dropWhile is_space s3)
                  else None))"

text \<open>The whole pattern at the start of \<open>s\<close>: the first alternative that matches.\<close>

fun match_separator :: "(string \<times> bool) list \<Rightarrow> string \<Rightarrow> string option" where
  "match_separator [] s = None"
| "match_separator (alt # alts) s =
     (case match_alternative alt s of Some rest \<Rightarrow> Some rest | None \<Rightarrow> match_separator alts s)"

lemma match_alternative_shorter:
  "match_alternative alt s = Some rest \<Longrightarrow> length rest < length s"
proof -
  assume a: "match_alternative alt s = Some rest"
  obtain keyword dot where alt: "alt = (keyword, dot)" by (cases alt)
  from a alt have ne: "s \<noteq> []" and sp: "is_space (hd s)"
    by (auto simp: match_alternative_def Let_def split: if_splits)
  then have l1: "length (dropWhile is_space s) < length s"
    by (cases s) (auto simp: length_dropWhile_le less_Suc_eq_le)
  let ?s1 = "dropWhile is_space s"
  let ?s2 = "drop (length keyword) ?s1"
  have l2: "length ?s2 \<le> length ?s1" by simp
  have l3: "length (dropWhile is_space x) \<le> length x" for x :: string
    by (rule length_dropWhile_le)
  have l4: "length (tl ?s2) \<le> length ?s2" by simp
  from a alt have "rest = dropWhile is_space ?s2 \<or> rest = dropWhile is_space (tl ?s2)"
    by (auto simp: match_alternative_def Let_def split: if_splits)
  then have "length rest \<le> length ?s2"
    using l3 [of ?s2] l3 [of "tl ?s2"] l4 by auto
  with l1 l2 show ?thesis by linarith
qed

lemma match_separator_shorter:
  "match_separator alts s = Some rest \<Longrightarrow> length rest < length s"
  by (induction alts) (auto split: option.splits dest: match_alternative_shorter)

text \<open>\<^verbatim>\<open>re.split(pattern, s)\<close>: the leftmost match is found by trying each position in
  turn, and the search goes on after the match.\<close>

function re_split :: "string \<Rightarrow> string \<Rightarrow> string list" where
  "re_split cur [] = [cur]"
| "re_split cur (c # cs) =
     (case match_separator separators (c # cs) of
        Some rest \<Rightarrow> cur # re_split [] rest
      | None \<Rightarrow> re_split (cur @ [c]) cs)"
  by pat_completeness auto
termination
  by (relation "measure (\<lambda>(cur, s). length s)") (auto dest: match_separator_shorter)

text \<open>\<^verbatim>\<open>" / " in raw_string\<close>.\<close>

fun contains :: "string \<Rightarrow> string \<Rightarrow> bool" where
  "contains sub [] = (sub = [])"
| "contains sub (c # cs) = (take (length sub) (c # cs) = sub \<or> contains sub cs)"

text \<open>The loop that cleans the parts and removes duplicates without regard to case.\<close>

fun clean_parts :: "string list \<Rightarrow> string list \<Rightarrow> string list \<Rightarrow> string list" where
  "clean_parts seen out [] = out"
| "clean_parts seen out (p # ps) =
     (if p = [] then clean_parts seen out ps
      else (let name = collapse_spaces (strip p); key = lower name
            in if key \<notin> set seen then clean_parts (key # seen) (out @ [name]) ps
               else clean_parts seen out ps))"

definition split_collaborations :: "string \<Rightarrow> string list" where
  "split_collaborations raw_string =
     (if strip raw_string = [] then []
      else (let parts =
                  (if contains '' / '' raw_string
                   then concat (map (re_split []) (split_on '' / '' [] raw_string))
                   else re_split [] raw_string)
            in clean_parts [] [] parts))"

subsubsection \<open>Responses\<close>

text \<open>The parts of the JSON bodies that the clients read; a field is \<open>None\<close> when its key
  is absent.\<close>

record area =
  area_name :: "string option"

record mb_artist =
  a_id :: "string option"
  a_name :: "string option"
  a_score :: "int option"
  a_area :: "area option"

record rel_url =
  resource :: "string option"

record relation =
  rel_type :: "string option"
  rel_url :: "rel_url option"

record country_name =
  cn_value :: "string option"

text \<open>A binding is falsy (\<^verbatim>\<open>if r\<close>) when it is the empty dictionary: no \<^verbatim>\<open>countryName\<close>
  and no other variable.\<close>

record binding =
  countryName :: "country_name option"
  other_variables :: "string list"

record sparql_results =
  bindings :: "binding list option"

record json_body =
  artists :: "mb_artist list option"
  relations :: "relation list option"
  results :: "sparql_results option"

text \<open>A response of \<^verbatim>\<open>requests.get\<close>: the status code, and the body, \<open>None\<close> when
  \<^verbatim>\<open>resp.json()\<close> raises.\<close>

record response =
  status_code :: nat
  body :: "json_body option"

text \<open>\<^verbatim>\<open>requests.get\<close> is the outside world: it returns a response or raises (a timeout,
  a connection error).\<close>

type_synonym 'w http = "request \<Rightarrow> 'w \<Rightarrow> (py_exn + response) \<times> 'w"

text \<open>The result of a call: the value returned or the exception raised, the world
  afterwards, and the events of the call in order.\<close>

type_synonym ('a, 'w) call = "(py_exn + 'a) \<times> 'w \<times> event list"

subsubsection \<open>The retry decorator\<close>

text \<open>Modelled from the spec: the wait of the retry decorator, which belongs to the
  tenacity library and is not among the sources. The base delay doubles with every
  attempt and is capped: for \<^verbatim>\<open>wait_exponential(multiplier=1, min=2, max=10)\<close>, the
  arguments in the source, the wait after the attempt numbered \<open>n\<close> (from 1) is
  \<open>multiplier * 2 ^ (n - 1)\<close> seconds, kept between \<open>min\<close> and \<open>max\<close>.\<close>

definition wait_exponential :: "nat \<Rightarrow> nat" where
  "wait_exponential n = 1000 * max 2 (min (1 * 2 ^ (n - 1)) 10)"

text \<open>Modelled from the spec: the retry decorator of the tenacity library, which is not
  among the sources. A failure is retried up to a fixed attempt ceiling and then given
  up: for \<^verbatim>\<open>@retry(stop=stop_after_attempt(3), wait=...)\<close>, \<open>left\<close> attempts remain and the
  next one is numbered \<open>n\<close>. An attempt that returns ends the loop; one that raises is
  followed by the wait and the next attempt, or by \<^verbatim>\<open>RetryError\<close> when it was the last.\<close>

fun retry_loop :: "nat \<Rightarrow> nat \<Rightarrow> ('w \<Rightarrow> ('a, 'w) call) \<Rightarrow> 'w \<Rightarrow> ('a, 'w) call" where
  "retry_loop 0 n attempt w = (Inl RetryError, w, [])"
| "retry_loop (Suc left) n attempt w =
     (case attempt w of
        (Inr v, w1, events) \<Rightarrow> (Inr v, w1, events)
      | (Inl e, w1, events) \<Rightarrow>
          if left = 0 then (Inl RetryError, w1, events)
          else (case retry_loop left (Suc n) attempt w1 of
                  (r, w2, events2) \<Rightarrow> (r, w2, events @ Sleep (wait_exponential n) # events2)))"

definition retry :: "('w \<Rightarrow> ('a, 'w) call) \<Rightarrow> 'w \<Rightarrow> ('a, 'w) call" where
  "retry attempt w = retry_loop 3 1 attempt w"

subsubsection \<open>The three clients\<close>

record mb_hit =
  hit_mbid :: string
  hit_name :: string
  hit_mb_country :: "string option"

text \<open>The body of \<^verbatim>\<open>search_musicbrainz\<close>. An exception inside the \<^verbatim>\<open>try\<close> is logged and
  raised again; when \<^verbatim>\<open>requests.get\<close> itself raises, the sleep after it is not reached.\<close>

definition search_musicbrainz_attempt :: "'w http \<Rightarrow> string \<Rightarrow> 'w \<Rightarrow> (mb_hit option, 'w) call" where
  "search_musicbrainz_attempt http name w =
     (case http (ArtistSearch name) w of
        (Inl e, w1) \<Rightarrow> (Inl e, w1, [Request (ArtistSearch name)])
      | (Inr resp, w1) \<Rightarrow>
          (let events = [Request (ArtistSearch name), Sleep 1200] in
           if status_code resp = 200 then
             (case body resp of
                None \<Rightarrow> (Inl JSONDecodeError, w1, events)
              | Some data \<Rightarrow>
                  (case artists data of
                     Some (artist # _) \<Rightarrow>
                       if 85 < get_or 0 (a_score artist) then
                         (case a_id artist of
                            None \<Rightarrow> (Inl KeyError, w1, events)
                          | Some mbid \<Rightarrow>
                              (case a_name artist of
                                 None \<Rightarrow> (Inl KeyError, w1, events)
                               | Some name \<Rightarrow>
                                   (Inr (Some \<lparr>hit_mbid = mbid, hit_name = name,
                                                hit_mb_country =
                                                  (case a_area artist of
                                                     None \<Rightarrow> None
                                                   | Some ar \<Rightarrow> area_name ar)\<rparr>),
                                    w1, events)))
                       else (Inr None, w1, events)
                   | _ \<Rightarrow> (Inr None, w1, events)))
           else (Inr None, w1, events)))"

definition search_musicbrainz :: "'w http \<Rightarrow> string \<Rightarrow> 'w \<Rightarrow> (mb_hit option, 'w) call" where
  "search_musicbrainz http name = retry (search_musicbrainz_attempt http name)"

text \<open>\<^verbatim>\<open>re.search(r'Q\d+', url)\<close>: the leftmost \<^verbatim>\<open>Q\<close> that a decimal digit follows, with
  all the digits after it.\<close>

fun search_qid :: "string \<Rightarrow> string option" where
  "search_qid [] = None"
| "search_qid (c # cs) =
     (if c = CHR ''Q'' \<and> cs \<noteq> [] \<and> isdecimal (hd cs) then Some (c # takeWhile isdecimal cs)
      else search_qid cs)"

text \<open>The \<^verbatim>\<open>for rel in data.get("relations", [])\<close> loop: the first match returns.\<close>

fun first_wikidata_qid :: "relation list \<Rightarrow> string option" where
  "first_wikidata_qid [] = None"
| "first_wikidata_qid (rel # rels) =
     (if rel_type rel = Some ''wikidata'' then
        (let url = get_or [] (case rel_url rel of None \<Rightarrow> None | Some u \<Rightarrow> resource u)
         in case search_qid url of
              Some qid \<Rightarrow> Some qid
            | None \<Rightarrow> first_wikidata_qid rels)
      else first_wikidata_qid rels)"

definition get_wikidata_qid_attempt :: "'w http \<Rightarrow> string \<Rightarrow> 'w \<Rightarrow> (string option, 'w) call" where
  "get_wikidata_qid_attempt http mbid w =
     (case http (ArtistLookup mbid) w of
        (Inl e, w1) \<Rightarrow> (Inl e, w1, [Request (ArtistLookup mbid)])
      | (Inr resp, w1) \<Rightarrow>
          (let events = [Request (ArtistLookup mbid), Sleep 1200] in
           if status_code resp = 200 then
             (case body resp of
                None \<Rightarrow> (Inl JSONDecodeError, w1, events)
              | Some data \<Rightarrow> (Inr (first_wikidata_qid (get_or [] (relations data))), w1, events))
           else (Inr None, w1, events)))"

definition get_wikidata_qid_from_mb :: "'w http \<Rightarrow> string \<Rightarrow> 'w \<Rightarrow> (string option, 'w) call" where
  "get_wikidata_qid_from_mb http mbid = retry (get_wikidata_qid_attempt http mbid)"

text \<open>\<^verbatim>\<open>[r.get("countryName", {}).get("value") for r in results if r]\<close>: an element is
  \<open>None\<close> when the binding has no such value.\<close>

definition country_values :: "binding list \<Rightarrow> string option list" where
  "country_values rs =
     map (\<lambda>r. case countryName r of None \<Rightarrow> None | Some cn \<Rightarrow> cn_value cn)
       (filter (\<lambda>r. countryName r \<noteq> None \<or> other_variables r \<noteq> []) rs)"

text \<open>The body of \<^verbatim>\<open>enrich_from_wikidata\<close>; there is no sleep in it.\<close>

definition enrich_from_wikidata_attempt ::
    "'w http \<Rightarrow> string \<Rightarrow> 'w \<Rightarrow> (string option list, 'w) call" where
  "enrich_from_wikidata_attempt http qid w =
     (case http (Sparql qid) w of
        (Inl e, w1) \<Rightarrow> (Inl e, w1, [Request (Sparql qid)])
      | (Inr resp, w1) \<Rightarrow>
          (let events = [Request (Sparql qid)] in
           if status_code resp = 200 then
             (case body resp of
                None \<Rightarrow> (Inl JSONDecodeError, w1, events)
              | Some data \<Rightarrow>
                  (Inr (country_values
                          (get_or [] (case results data of None \<Rightarrow> None
                                      | Some res \<Rightarrow> bindings res))),
                   w1, events))
           else (Inr [], w1, events)))"

definition enrich_from_wikidata :: "'w http \<Rightarrow> string \<Rightarrow> 'w \<Rightarrow> (string option list, 'w) call" where
  "enrich_from_wikidata http qid = retry (enrich_from_wikidata_attempt http qid)"

subsubsection \<open>The orchestrator\<close>

text \<open>A resolved record of the catalog, and a value of the catalog: the record or the
  explicit \<^verbatim>\<open>None\<close> that marks a failed lookup.\<close>

record artist_record =
  mbid :: string
  qid :: "string option"
  nationality :: "string option"

datatype entry = Null | Rec artist_record

text \<open>\<^verbatim>\<open>[c.strip() for c in all_countries]\<close> raises \<^verbatim>\<open>AttributeError\<close> on a \<^verbatim>\<open>None\<close>.\<close>

fun strip_all :: "string option list \<Rightarrow> py_exn + string list" where
  "strip_all [] = Inr []"
| "strip_all (None # cs) = Inl AttributeError"
| "strip_all (Some c # cs) =
     (case strip_all cs of Inl e \<Rightarrow> Inl e | Inr rest \<Rightarrow> Inr (strip c # rest))"

text \<open>\<^verbatim>\<open>fetch_and_build_record\<close>. The three client calls are inside \<^verbatim>\<open>try\<close> blocks; the
  merge of the countries is not.\<close>

definition fetch_and_build_record ::
    "'w http \<Rightarrow> string \<Rightarrow> 'w \<Rightarrow> (artist_record option, 'w) call" where
  "fetch_and_build_record http artist w =
     (case search_musicbrainz http artist w of
        (Inl e, w1, ev1) \<Rightarrow> (Inr None, w1, ev1)
      | (Inr None, w1, ev1) \<Rightarrow> (Inr None, w1, ev1)
      | (Inr (Some mb_data), w1, ev1) \<Rightarrow>
          (let mbid = hit_mbid mb_data;
               mb_country = hit_mb_country mb_data;
               (qid, w2, ev2) =
                 (case get_wikidata_qid_from_mb http mbid w1 of
                    (Inl e, w2, ev2) \<Rightarrow> (None, w2, ev2)
                  | (Inr q, w2, ev2) \<Rightarrow> (q, w2, ev2));
               (wd_countries, w3, ev3) =
                 (if qid \<noteq> None \<and> qid \<noteq> Some [] then
                    (case enrich_from_wikidata http (the qid) w2 of
                       (Inl e, w3, ev3) \<Rightarrow> ([], w3, ev3)
                     | (Inr cs, w3, ev3) \<Rightarrow> (cs, w3, ev3))
                  else ([], w2, []));
               all_countries =
                 (if mb_country \<noteq> None \<and> mb_country \<noteq> Some [] then [mb_country] else [])
                 @ wd_countries;
               events = ev1 @ ev2 @ ev3
           in if all_countries \<noteq> [] then
                (case strip_all all_countries of
                   Inl e \<Rightarrow> (Inl e, w3, events)
                 | Inr stripped \<Rightarrow>
                     (Inr (Some \<lparr>mbid = mbid, qid = qid,
                                  nationality = Some (join '' / '' (fromkeys stripped))\<rparr>),
                      w3, events))
              else (Inr (Some \<lparr>mbid = mbid, qid = qid, nationality = None\<rparr>), w3, events)))"

text \<open>The catalog \<^verbatim>\<open>catalog["artists_catalog"]\<close>, and the test that is written twice in
  \<^verbatim>\<open>process_raw_entry\<close>: the key is absent, or its value is a record without a QID.\<close>

type_synonym catalog = "(string \<times> entry) list"

definition needs_processing :: "catalog \<Rightarrow> string \<Rightarrow> bool" where
  "needs_processing catalog key =
     (case map_of catalog key of
        None \<Rightarrow> True
      | Some Null \<Rightarrow> False
      | Some (Rec r) \<Rightarrow> qid r = None)"

text \<open>The result of a step on the catalog: the exception that left it (if any), the
  catalog as it stands, the world, and the events.\<close>

type_synonym 'w catalog_step = "py_exn option \<times> catalog \<times> 'w \<times> event list"

text \<open>Pass 2, the \<^verbatim>\<open>for token in individual_tokens\<close> loop.\<close>

fun process_tokens :: "'w http \<Rightarrow> string list \<Rightarrow> catalog \<Rightarrow> 'w \<Rightarrow> 'w catalog_step" where
  "process_tokens http [] catalog w = (None, catalog, w, [])"
| "process_tokens http (token # tokens) catalog w =
     (if needs_processing catalog token then
        (case fetch_and_build_record http token w of
           (Inl e, w1, ev1) \<Rightarrow> (Some e, catalog, w1, ev1)
         | (Inr v, w1, ev1) \<Rightarrow>
             (case process_tokens http tokens
                     (AList.update token (case v of None \<Rightarrow> Null | Some r \<Rightarrow> Rec r) catalog)
                     w1 of
                (x, catalog', w2, ev2) \<Rightarrow> (x, catalog', w2, ev1 @ ev2)))
      else process_tokens http tokens catalog w)"

text \<open>Pass 2 as a whole: \<^verbatim>\<open>catalog.get(raw_clean) is None\<close> holds of an absent key and of
  the explicit \<^verbatim>\<open>None\<close>.\<close>

definition second_pass :: "'w http \<Rightarrow> string \<Rightarrow> catalog \<Rightarrow> 'w \<Rightarrow> 'w catalog_step" where
  "second_pass http raw_clean catalog w =
     (if map_of catalog raw_clean = None \<or> map_of catalog raw_clean = Some Null
      then process_tokens http (split_collaborations raw_clean) catalog w
      else (None, catalog, w, []))"

definition process_raw_entry :: "'w http \<Rightarrow> string \<Rightarrow> catalog \<Rightarrow> 'w \<Rightarrow> 'w catalog_step" where
  "process_raw_entry http raw_string catalog w =
     (let raw_clean = normalize_name raw_string in
      if needs_processing catalog raw_clean then
        (case fetch_and_build_record http raw_clean w of
           (Inl e, w1, ev1) \<Rightarrow> (Some e, catalog, w1, ev1)
         | (Inr (Some full_string_hit), w1, ev1) \<Rightarrow>
             (None, AList.update raw_clean (Rec full_string_hit) catalog, w1, ev1)
         | (Inr None, w1, ev1) \<Rightarrow>
             (case second_pass http raw_clean (AList.update raw_clean Null catalog) w1 of
                (x, catalog', w2, ev2) \<Rightarrow> (x, catalog', w2, ev1 @ ev2)))
      else second_pass http raw_clean catalog w)"

text \<open>The loop of \<^verbatim>\<open>main\<close> over the raw entries (the checkpoints aside).\<close>

fun process_entries :: "'w http \<Rightarrow> string list \<Rightarrow> catalog \<Rightarrow> 'w \<Rightarrow> 'w catalog_step" where
  "process_entries http [] catalog w = (None, catalog, w, [])"
| "process_entries http (raw_entry # raw_entries) catalog w =
     (case process_raw_entry http raw_entry catalog w of
        (Some e, catalog1, w1, ev1) \<Rightarrow> (Some e, catalog1, w1, ev1)
      | (None, catalog1, w1, ev1) \<Rightarrow>
          (case process_entries http raw_entries catalog1 w1 of
             (x, catalog2, w2, ev2) \<Rightarrow> (x, catalog2, w2, ev1 @ ev2)))"

section \<open>Properties\<close>

subsection \<open>Properties of the merge step\<close>

lemma data_found_Some: "data_found data \<Longrightarrow> \<exists>d. data = Some d \<and> found d"
  by (cases data) (simp_all add: data_found_def)


text \<open>
  Claim C7. A row whose composite key \<^verbatim>\<open>"{artist_name} || {song_name}"\<close> is absent from
  the MusicBrainz cache gets exactly the neutral defaults \<open>mb_found = 0\<close>,
  \<open>mb_is_single = 1\<close>, \<open>mb_track_number = 1\<close>, \<open>mb_track_count = 1\<close>,
  \<open>mb_prominence_ratio = 0.0\<close>; no feature is left unset.
\<close>

theorem extract_logic_absent_key:
  assumes "map_of mb_data (artist_name r @ '' || '' @ song_name r) = None"
  shows "extract_logic mb_data r =
           Inr \<lparr>mb_found = 0, mb_is_single = 1, mb_track_number = 1, mb_track_count = 1,
                mb_prominence_ratio = 0\<rparr>"
  using assms
  by (simp add: extract_logic_def composite_key_def data_found_def neutral_defaults_def)

theorem extract_logic_absent_key_witness:
  "map_of [(''Queen || Bohemian Rhapsody'', empty_result)]
       (artist_name \<lparr>artist_name = ''Muse'', song_name = ''Uprising''\<rparr> @ '' || '' @
        song_name \<lparr>artist_name = ''Muse'', song_name = ''Uprising''\<rparr>) = None
   \<and> extract_logic [(''Queen || Bohemian Rhapsody'', empty_result)]
        \<lparr>artist_name = ''Muse'', song_name = ''Uprising''\<rparr> =
      Inr \<lparr>mb_found = 0, mb_is_single = 1, mb_track_number = 1, mb_track_count = 1,
           mb_prominence_ratio = 0\<rparr>"
  using extract_logic_absent_key
    [of "[(''Queen || Bohemian Rhapsody'', empty_result)]"
        "\<lparr>artist_name = ''Muse'', song_name = ''Uprising''\<rparr>"]
  by simp























subsection \<open>Properties of the prominence extractor\<close>

lemma sort_key_head:
  "xs \<noteq> [] \<Longrightarrow>
     \<exists>c ys. sort_key f xs = c # ys \<and> c \<in> set xs \<and> (\<forall>x\<in>set xs. f c \<le> f x)
          \<and> find (\<lambda>x. f x = f c) xs = Some c"
proof (induction xs)
  case Nil
  then show ?case by simp
next
  case (Cons x xs)
  show ?case
  proof (cases "xs = []")
    case True
    then show ?thesis by simp
  next
    case False
    with Cons.IH obtain m ys where
      m: "sort_key f xs = m # ys" "m \<in> set xs" "\<forall>y\<in>set xs. f m \<le> f y"
         "find (\<lambda>y. f y = f m) xs = Some m"
      by blast
    show ?thesis
    proof (cases "f x \<le> f m")
      case True
      with m show ?thesis by (auto intro: order_trans)
    next
      case False
      with m show ?thesis by auto
    qed
  qed
qed

lemma best_valid_release_first_minimum:
  assumes "valid \<noteq> []"
  shows "\<exists>c. best_valid_release valid = Some (cand_release c) \<and> c \<in> set valid
           \<and> (\<forall>x\<in>set valid. release_key c \<le> release_key x)
           \<and> find (\<lambda>x. release_key x = release_key c) valid = Some c"
proof -
  from sort_key_head [OF assms, of release_key] obtain c ys where
    "sort_key release_key valid = c # ys" "c \<in> set valid"
    "\<forall>x\<in>set valid. release_key c \<le> release_key x"
    "find (\<lambda>x. release_key x = release_key c) valid = Some c"
    by blast
  then show ?thesis by (auto simp: best_valid_release_def)
qed

text \<open>
  Claim C4, as the code has it. For a non-empty list of surviving candidates the release
  chosen is that of a candidate whose key (first four characters of the date, type
  priority with Album = 0, EP = 1, Single = 2, full date) is the minimum, and among the
  candidates with that key it is the first in input order (the sort is stable). Under any
  reordering of the candidates the key of the chosen candidate is the same, and the chosen
  candidate itself is the same when no other candidate has its key. For the candidates
  Single \<open>2012\<close> and Album \<open>2012-03-01\<close> the Album is chosen, in either order.
\<close>

theorem best_valid_release_minimum:
  assumes "valid \<noteq> []"
  shows "\<exists>c. best_valid_release valid = Some (cand_release c) \<and> c \<in> set valid
           \<and> (\<forall>x\<in>set valid. release_key c \<le> release_key x)
           \<and> find (\<lambda>x. release_key x = release_key c) valid = Some c
           \<and> (\<forall>valid'. mset valid' = mset valid \<longrightarrow>
                 (\<exists>c'. best_valid_release valid' = Some (cand_release c') \<and> c' \<in> set valid
                    \<and> release_key c' = release_key c
                    \<and> ((\<forall>x\<in>set valid. release_key x = release_key c \<longrightarrow> x = c) \<longrightarrow> c' = c)))"
proof -
  from best_valid_release_first_minimum [OF assms] obtain c where
    c: "best_valid_release valid = Some (cand_release c)" "c \<in> set valid"
       "\<forall>x\<in>set valid. release_key c \<le> release_key x"
       "find (\<lambda>x. release_key x = release_key c) valid = Some c"
    by blast
  have perm: "\<exists>c'. best_valid_release valid' = Some (cand_release c') \<and> c' \<in> set valid
                    \<and> release_key c' = release_key c
                    \<and> ((\<forall>x\<in>set valid. release_key x = release_key c \<longrightarrow> x = c) \<longrightarrow> c' = c)"
    if p: "mset valid' = mset valid" for valid'
  proof -
    from p have s: "set valid' = set valid" by (rule mset_eq_setD)
    with assms have "valid' \<noteq> []" by auto
    from best_valid_release_first_minimum [OF this] obtain c' where
      c': "best_valid_release valid' = Some (cand_release c')" "c' \<in> set valid'"
          "\<forall>x\<in>set valid'. release_key c' \<le> release_key x"
      by blast
    from c' c s have "release_key c' \<le> release_key c" "release_key c \<le> release_key c'"
      by auto
    then have "release_key c' = release_key c" by simp
    with c' s show ?thesis by auto
  qed
  from c perm show ?thesis by blast
qed


theorem best_valid_release_minimum_witness:
  "[\<lparr>cand_release = \<lparr>title = Some ''S'', status = Some ''Official'', date = Some ''2012'',
        release_group = Some \<lparr>rg_type = Some ''Single'', secondary_type_list = None\<rparr>,
        medium_list = None\<rparr>, cand_date = ''2012'', cand_type = ''Single''\<rparr>,
     \<lparr>cand_release = \<lparr>title = Some ''A'', status = Some ''Official'',
        date = Some ''2012-03-01'',
        release_group = Some \<lparr>rg_type = Some ''Album'', secondary_type_list = None\<rparr>,
        medium_list = None\<rparr>, cand_date = ''2012-03-01'', cand_type = ''Album''\<rparr>] \<noteq> []
   \<and> best_valid_release
      [\<lparr>cand_release = \<lparr>title = Some ''S'', status = Some ''Official'', date = Some ''2012'',
        release_group = Some \<lparr>rg_type = Some ''Single'', secondary_type_list = None\<rparr>,
        medium_list = None\<rparr>, cand_date = ''2012'', cand_type = ''Single''\<rparr>,
       \<lparr>cand_release = \<lparr>title = Some ''A'', status = Some ''Official'',
        date = Some ''2012-03-01'',
        release_group = Some \<lparr>rg_type = Some ''Album'', secondary_type_list = None\<rparr>,
        medium_list = None\<rparr>, cand_date = ''2012-03-01'', cand_type = ''Album''\<rparr>] =
     Some \<lparr>title = Some ''A'', status = Some ''Official'', date = Some ''2012-03-01'',
        release_group = Some \<lparr>rg_type = Some ''Album'', secondary_type_list = None\<rparr>,
        medium_list = None\<rparr>
   \<and> best_valid_release
      [\<lparr>cand_release = \<lparr>title = Some ''A'', status = Some ''Official'',
        date = Some ''2012-03-01'',
        release_group = Some \<lparr>rg_type = Some ''Album'', secondary_type_list = None\<rparr>,
        medium_list = None\<rparr>, cand_date = ''2012-03-01'', cand_type = ''Album''\<rparr>,
       \<lparr>cand_release = \<lparr>title = Some ''S'', status = Some ''Official'', date = Some ''2012'',
        release_group = Some \<lparr>rg_type = Some ''Single'', secondary_type_list = None\<rparr>,
        medium_list = None\<rparr>, cand_date = ''2012'', cand_type = ''Single''\<rparr>] =
     Some \<lparr>title = Some ''A'', status = Some ''Official'', date = Some ''2012-03-01'',
        release_group = Some \<lparr>rg_type = Some ''Album'', secondary_type_list = None\<rparr>,
        medium_list = None\<rparr>"
  using best_valid_release_minimum
    [of "[\<lparr>cand_release = \<lparr>title = Some ''S'', status = Some ''Official'', date = Some ''2012'',
        release_group = Some \<lparr>rg_type = Some ''Single'', secondary_type_list = None\<rparr>,
        medium_list = None\<rparr>, cand_date = ''2012'', cand_type = ''Single''\<rparr>,
     \<lparr>cand_release = \<lparr>title = Some ''A'', status = Some ''Official'',
        date = Some ''2012-03-01'',
        release_group = Some \<lparr>rg_type = Some ''Album'', secondary_type_list = None\<rparr>,
        medium_list = None\<rparr>, cand_date = ''2012-03-01'', cand_type = ''Album''\<rparr>]"]
  by (simp add: best_valid_release_def release_key_def type_priority_def)

text \<open>
  The choice is not independent of the input order when two candidates share the minimal
  key. Two official albums dated \<open>2012\<close> both survive the filters; the one listed first
  is chosen, so that swapping them changes the release chosen.
\<close>

theorem best_valid_release_order_counterexample:
  "valid_releases
     [\<lparr>release_list = Some
         [\<lparr>title = Some ''Original'', status = Some ''Official'', date = Some ''2012'',
           release_group = Some \<lparr>rg_type = Some ''Album'', secondary_type_list = None\<rparr>,
           medium_list = None\<rparr>,
          \<lparr>title = Some ''Reissue'', status = Some ''Official'', date = Some ''2012'',
           release_group = Some \<lparr>rg_type = Some ''Album'', secondary_type_list = None\<rparr>,
           medium_list = None\<rparr>]\<rparr>] =
     [\<lparr>cand_release =
          \<lparr>title = Some ''Original'', status = Some ''Official'', date = Some ''2012'',
           release_group = Some \<lparr>rg_type = Some ''Album'', secondary_type_list = None\<rparr>,
           medium_list = None\<rparr>,
       cand_date = ''2012'', cand_type = ''Album''\<rparr>,
      \<lparr>cand_release =
          \<lparr>title = Some ''Reissue'', status = Some ''Official'', date = Some ''2012'',
           release_group = Some \<lparr>rg_type = Some ''Album'', secondary_type_list = None\<rparr>,
           medium_list = None\<rparr>,
       cand_date = ''2012'', cand_type = ''Album''\<rparr>]
   \<and> best_valid_release
       (valid_releases
          [\<lparr>release_list = Some
         [\<lparr>title = Some ''Original'', status = Some ''Official'', date = Some ''2012'',
           release_group = Some \<lparr>rg_type = Some ''Album'', secondary_type_list = None\<rparr>,
           medium_list = None\<rparr>,
          \<lparr>title = Some ''Reissue'', status = Some ''Official'', date = Some ''2012'',
           release_group = Some \<lparr>rg_type = Some ''Album'', secondary_type_list = None\<rparr>,
           medium_list = None\<rparr>]\<rparr>]) =
     Some \<lparr>title = Some ''Original'', status = Some ''Official'', date = Some ''2012'',
           release_group = Some \<lparr>rg_type = Some ''Album'', secondary_type_list = None\<rparr>,
           medium_list = None\<rparr>
   \<and> best_valid_release
       (valid_releases
          [\<lparr>release_list = Some
         [\<lparr>title = Some ''Reissue'', status = Some ''Official'', date = Some ''2012'',
           release_group = Some \<lparr>rg_type = Some ''Album'', secondary_type_list = None\<rparr>,
           medium_list = None\<rparr>,
          \<lparr>title = Some ''Original'', status = Some ''Official'', date = Some ''2012'',
           release_group = Some \<lparr>rg_type = Some ''Album'', secondary_type_list = None\<rparr>,
           medium_list = None\<rparr>]\<rparr>]) =
     Some \<lparr>title = Some ''Reissue'', status = Some ''Official'', date = Some ''2012'',
           release_group = Some \<lparr>rg_type = Some ''Album'', secondary_type_list = None\<rparr>,
           medium_list = None\<rparr>"
  by code_simp

lemma extract_medium_raised:
  "fst (extract_medium m result) = Some e \<Longrightarrow> found (snd (extract_medium m result)) = found result"
  by (auto simp: extract_medium_def Let_def split: option.splits list.splits sum.splits if_splits)

lemma extract_metrics_raised:
  "fst (extract_metrics rel result) = Some e \<Longrightarrow>
     found (snd (extract_metrics rel result)) = found result"
  by (auto simp: extract_metrics_def Let_def extract_medium_def
      split: option.splits list.splits sum.splits if_splits prod.splits)


lemma process_recordings_raised:
  "fst (process_recordings recs result) = Some e \<Longrightarrow>
     found (snd (process_recordings recs result)) = found result"
  by (auto simp: process_recordings_def extract_metrics_raised split: option.splits)




lemma extract_metrics_value_error:
  assumes "medium_list best = Some (m # ms)" and "track_list m = Some (tr # trs)"
    and "filter isdigit (get_or [] (number tr)) \<noteq> []"
    and "\<not> list_all isdecimal (filter isdigit (get_or [] (number tr)))"
  shows "extract_metrics best empty_result =
     (Some ValueError,
      \<lparr>release_title = Some (get_or ''unknown'' (title best)),
       release_date = Some (get_or ''unknown'' (date best)),
       release_type =
         (if ''Compilation'' \<in> set (get_or [] (rg_get secondary_type_list best))
          then ''Compilation'' else get_or ''unknown'' (rg_get rg_type best)),
       track_count = None, track_number = None, found = False\<rparr>)"
  using assms
  by (simp add: extract_metrics_def extract_medium_def py_int_def empty_result_def Let_def)

lemma process_recordings_chosen:
  assumes "recordings \<noteq> []"
    and "best_valid_release (valid_releases recordings) = Some best
         \<or> best_valid_release (valid_releases recordings) = None
           \<and> fallback_release recordings = Some best"
  shows "process_recordings recordings result = extract_metrics best result"
  using assms by (auto simp: process_recordings_def)

lemma get_track_prominence_strict:
  assumes "search (strict_query a t) w = (Inr sr, w1)"
    and "get_or [] (recording_list sr) \<noteq> []"
  shows "fst (get_track_prominence search a t w) =
           Inr (snd (process_recordings (get_or [] (recording_list sr)) empty_result))"
  using assms
  by (simp add: get_track_prominence_def prominence_try_def Let_def split: prod.splits)

lemma get_track_prominence_loose:
  assumes "search (strict_query a t) w = (Inr sr, w1)"
    and "get_or [] (recording_list sr) = []"
    and "search (loose_query a t) w1 = (Inr sr2, w2)"
  shows "fst (get_track_prominence search a t w) =
           Inr (snd (process_recordings (get_or [] (recording_list sr2)) empty_result))"
  using assms
  by (simp add: get_track_prominence_def prominence_try_def Let_def split: prod.splits)

text \<open>
  Claim C6, as the code has it. \<^verbatim>\<open>get_track_prominence\<close> never raises: it returns a
  record whatever the search does. When an exception was raised inside the \<^verbatim>\<open>try\<close>
  block the record has \<open>found = False\<close>. When it was raised by a search, the record is
  the initial one, all fields at their defaults. When it was raised while the fields of
  the chosen release were read (the digits of the track number are not all decimal, so
  that \<^verbatim>\<open>int\<close> raises), the record keeps the title, date and type already written, with
  track number and track count unset.
\<close>

theorem get_track_prominence_never_raises:
  "\<exists>result w' events.
      get_track_prominence search a t w = (Inr result, w', events)
    \<and> (\<forall>e. fst (fst (prominence_try search a t empty_result w)) = Some e \<longrightarrow> \<not> found result)
    \<and> (\<forall>e w1. search (strict_query a t) w = (Inl e, w1) \<longrightarrow> result = empty_result)
    \<and> (\<forall>sr w1 e w2.
          search (strict_query a t) w = (Inr sr, w1) \<and> get_or [] (recording_list sr) = []
          \<and> search (loose_query a t) w1 = (Inl e, w2) \<longrightarrow> result = empty_result)
    \<and> (\<forall>recordings best m ms tr trs.
          ((\<exists>sr w1. search (strict_query a t) w = (Inr sr, w1)
                \<and> recordings = get_or [] (recording_list sr))
           \<or> (\<exists>sr w1 sr2 w2. search (strict_query a t) w = (Inr sr, w1)
                \<and> get_or [] (recording_list sr) = []
                \<and> search (loose_query a t) w1 = (Inr sr2, w2)
                \<and> recordings = get_or [] (recording_list sr2)))
          \<and> recordings \<noteq> []
          \<and> (best_valid_release (valid_releases recordings) = Some best
              \<or> best_valid_release (valid_releases recordings) = None
                \<and> fallback_release recordings = Some best)
          \<and> medium_list best = Some (m # ms) \<and> track_list m = Some (tr # trs)
          \<and> filter isdigit (get_or [] (number tr)) \<noteq> []
          \<and> \<not> list_all isdecimal (filter isdigit (get_or [] (number tr)))
          \<longrightarrow> result =
                \<lparr>release_title = Some (get_or ''unknown'' (title best)),
                 release_date = Some (get_or ''unknown'' (date best)),
                 release_type =
                   (if ''Compilation'' \<in> set (get_or [] (rg_get secondary_type_list best))
                    then ''Compilation'' else get_or ''unknown'' (rg_get rg_type best)),
                 track_count = None, track_number = None, found = False\<rparr>)"
proof -
  obtain x r w' ev where p: "prominence_try search a t empty_result w = ((x, r), w', ev)"
    by (metis prod.exhaust)
  then have g: "get_track_prominence search a t w = (Inr r, w', Sleep 1000 # ev)"
    by (simp add: get_track_prominence_def)
  have nf: "\<not> found empty_result" by (simp add: empty_result_def)
  have raised: "\<not> found r" if "x = Some e" for e
  proof -
    have pr: "\<not> found r'" if "process_recordings recs empty_result = (Some e, r')" for recs r'
      using that nf process_recordings_raised [of recs empty_result e] by simp
    from p \<open>x = Some e\<close> nf show ?thesis
      by (auto simp: prominence_try_def Let_def dest: pr
          split: prod.splits sum.splits if_splits)
  qed
  have s1: "r = empty_result" if "search (strict_query a t) w = (Inl e, w1)" for e w1
    using p that by (simp add: prominence_try_def Let_def)
  have s2: "r = empty_result"
    if "search (strict_query a t) w = (Inr sr, w1)" "get_or [] (recording_list sr) = []"
       "search (loose_query a t) w1 = (Inl e, w2)" for sr w1 e w2
    using p that by (simp add: prominence_try_def Let_def)
  have kept: "r = \<lparr>release_title = Some (get_or ''unknown'' (title best)),
                 release_date = Some (get_or ''unknown'' (date best)),
                 release_type =
                   (if ''Compilation'' \<in> set (get_or [] (rg_get secondary_type_list best))
                    then ''Compilation'' else get_or ''unknown'' (rg_get rg_type best)),
                 track_count = None, track_number = None, found = False\<rparr>"
    if src: "(\<exists>sr w1. search (strict_query a t) w = (Inr sr, w1)
                \<and> recordings = get_or [] (recording_list sr))
           \<or> (\<exists>sr w1 sr2 w2. search (strict_query a t) w = (Inr sr, w1)
                \<and> get_or [] (recording_list sr) = []
                \<and> search (loose_query a t) w1 = (Inr sr2, w2)
                \<and> recordings = get_or [] (recording_list sr2))"
      and ne: "recordings \<noteq> []"
      and ch: "best_valid_release (valid_releases recordings) = Some best
              \<or> best_valid_release (valid_releases recordings) = None
                \<and> fallback_release recordings = Some best"
      and md: "medium_list best = Some (m # ms)" and tl: "track_list m = Some (tr # trs)"
      and dg: "filter isdigit (get_or [] (number tr)) \<noteq> []"
      and nd: "\<not> list_all isdecimal (filter isdigit (get_or [] (number tr)))"
    for recordings best m ms tr trs
  proof -
    have "fst (get_track_prominence search a t w) =
        Inr (snd (process_recordings recordings empty_result))"
      using src
    proof (elim disjE exE conjE)
      fix sr w1
      assume "search (strict_query a t) w = (Inr sr, w1)"
        "recordings = get_or [] (recording_list sr)"
      with ne show ?thesis
        using get_track_prominence_strict [of search a t w sr w1] by simp
    next
      fix sr w1 sr2 w2
      assume "search (strict_query a t) w = (Inr sr, w1)" "get_or [] (recording_list sr) = []"
        "search (loose_query a t) w1 = (Inr sr2, w2)"
        "recordings = get_or [] (recording_list sr2)"
      then show ?thesis
        using get_track_prominence_loose [of search a t w sr w1 sr2 w2] by simp
    qed
    with g have "r = snd (process_recordings recordings empty_result)" by simp
    also have "process_recordings recordings empty_result = extract_metrics best empty_result"
      using ne ch by (rule process_recordings_chosen)
    also note extract_metrics_value_error [OF md tl dg nd]
    finally show ?thesis by simp
  qed
  have c1: "\<forall>e. fst (fst (prominence_try search a t empty_result w)) = Some e \<longrightarrow> \<not> found r"
    using raised p by simp
  have c2: "\<forall>e w1. search (strict_query a t) w = (Inl e, w1) \<longrightarrow> r = empty_result"
    using s1 by blast
  have c3: "\<forall>sr w1 e w2.
          search (strict_query a t) w = (Inr sr, w1) \<and> get_or [] (recording_list sr) = []
          \<and> search (loose_query a t) w1 = (Inl e, w2) \<longrightarrow> r = empty_result"
    using s2 by blast
  have c4: "\<forall>recordings best m ms tr trs.
          ((\<exists>sr w1. search (strict_query a t) w = (Inr sr, w1)
                \<and> recordings = get_or [] (recording_list sr))
           \<or> (\<exists>sr w1 sr2 w2. search (strict_query a t) w = (Inr sr, w1)
                \<and> get_or [] (recording_list sr) = []
                \<and> search (loose_query a t) w1 = (Inr sr2, w2)
                \<and> recordings = get_or [] (recording_list sr2)))
          \<and> recordings \<noteq> []
          \<and> (best_valid_release (valid_releases recordings) = Some best
              \<or> best_valid_release (valid_releases recordings) = None
                \<and> fallback_release recordings = Some best)
          \<and> medium_list best = Some (m # ms) \<and> track_list m = Some (tr # trs)
          \<and> filter isdigit (get_or [] (number tr)) \<noteq> []
          \<and> \<not> list_all isdecimal (filter isdigit (get_or [] (number tr)))
          \<longrightarrow> r =
                \<lparr>release_title = Some (get_or ''unknown'' (title best)),
                 release_date = Some (get_or ''unknown'' (date best)),
                 release_type =
                   (if ''Compilation'' \<in> set (get_or [] (rg_get secondary_type_list best))
                    then ''Compilation'' else get_or ''unknown'' (rg_get rg_type best)),
                 track_count = None, track_number = None, found = False\<rparr>"
  proof (intro allI impI)
    fix recordings best m ms tr trs
    assume h: "((\<exists>sr w1. search (strict_query a t) w = (Inr sr, w1)
                \<and> recordings = get_or [] (recording_list sr))
           \<or> (\<exists>sr w1 sr2 w2. search (strict_query a t) w = (Inr sr, w1)
                \<and> get_or [] (recording_list sr) = []
                \<and> search (loose_query a t) w1 = (Inr sr2, w2)
                \<and> recordings = get_or [] (recording_list sr2)))
          \<and> recordings \<noteq> []
          \<and> (best_valid_release (valid_releases recordings) = Some best
              \<or> best_valid_release (valid_releases recordings) = None
                \<and> fallback_release recordings = Some best)
          \<and> medium_list best = Some (m # ms) \<and> track_list m = Some (tr # trs)
          \<and> filter isdigit (get_or [] (number tr)) \<noteq> []
          \<and> \<not> list_all isdecimal (filter isdigit (get_or [] (number tr)))"
    show "r =
                \<lparr>release_title = Some (get_or ''unknown'' (title best)),
                 release_date = Some (get_or ''unknown'' (date best)),
                 release_type =
                   (if ''Compilation'' \<in> set (get_or [] (rg_get secondary_type_list best))
                    then ''Compilation'' else get_or ''unknown'' (rg_get rg_type best)),
                 track_count = None, track_number = None, found = False\<rparr>"
      by (rule kept [of recordings best m ms tr trs]) (use h in blast)+
  qed
  from g c1 c2 c3 c4 show ?thesis by blast
qed

lemma get_track_prominence_superscript_run:
  "get_track_prominence
     (\<lambda>q w. (Inr \<lparr>recording_list = Some
                [\<lparr>release_list = Some
                    [\<lparr>title = Some ''Live Bootleg'', status = Some ''Bootleg'',
                      date = Some ''1999'',
                      release_group = Some \<lparr>rg_type = Some ''Album'',
                                              secondary_type_list = Some [''Live'']\<rparr>,
                      medium_list = Some [\<lparr>track_list = Some [\<lparr>number = Some [CHR 0xB3]\<rparr>],
                                            medium_track_count = Some 9\<rparr>]\<rparr>]\<rparr>]\<rparr>,
              w))
     ''Artist'' ''Track'' () =
   (Inr \<lparr>release_title = Some ''Live Bootleg'', release_date = Some ''1999'',
         release_type = ''Album'', track_count = None, track_number = None, found = False\<rparr>,
    (), [Sleep 1000, Request (SearchRecordings (strict_query ''Artist'' ''Track''))])
   \<and> get_track_prominence (\<lambda>q w. (Inl WebServiceError, w)) ''Artist'' ''Track'' () =
     (Inr \<lparr>release_title = None, release_date = None, release_type = ''unknown'',
           track_count = None, track_number = None, found = False\<rparr>,
      (), [Sleep 1000, Request (SearchRecordings (strict_query ''Artist'' ''Track''))])"
  by code_simp

theorem get_track_prominence_never_raises_witness:
  "get_track_prominence
     (\<lambda>q w. (Inr \<lparr>recording_list = Some
                [\<lparr>release_list = Some
                    [\<lparr>title = Some ''Live Bootleg'', status = Some ''Bootleg'',
                      date = Some ''1999'',
                      release_group = Some \<lparr>rg_type = Some ''Album'',
                                              secondary_type_list = Some [''Live'']\<rparr>,
                      medium_list = Some [\<lparr>track_list = Some [\<lparr>number = Some [CHR 0xB3]\<rparr>],
                                            medium_track_count = Some 9\<rparr>]\<rparr>]\<rparr>]\<rparr>,
              w))
     ''Artist'' ''Track'' () =
   (Inr \<lparr>release_title = Some ''Live Bootleg'', release_date = Some ''1999'',
         release_type = ''Album'', track_count = None, track_number = None, found = False\<rparr>,
    (), [Sleep 1000, Request (SearchRecordings (strict_query ''Artist'' ''Track''))])
   \<and> get_track_prominence (\<lambda>q w. (Inl WebServiceError, w)) ''Artist'' ''Track'' () =
     (Inr \<lparr>release_title = None, release_date = None, release_type = ''unknown'',
           track_count = None, track_number = None, found = False\<rparr>,
      (), [Sleep 1000, Request (SearchRecordings (strict_query ''Artist'' ''Track''))])"
  using get_track_prominence_never_raises
      [where search = "\<lambda>q w. (Inl WebServiceError, w)" and a = "''Artist''"
         and t = "''Track''" and w = "()"]
    get_track_prominence_superscript_run
  by simp

text \<open>
  The record returned after an exception is not always the initial one. The track number
  \<open>\<twosuperior>\<close> passes \<^verbatim>\<open>str.isdigit\<close>, \<^verbatim>\<open>int\<close> raises \<^verbatim>\<open>ValueError\<close> on it, and by then
  title, date and type have been written into the result.
\<close>

theorem get_track_prominence_partial_counterexample:
  "get_track_prominence
     (\<lambda>q w. (Inr \<lparr>recording_list = Some
                [\<lparr>release_list = Some
                    [\<lparr>title = Some ''Album'', status = Some ''Official'',
                      date = Some ''2012-03-01'',
                      release_group = Some \<lparr>rg_type = Some ''Album'',
                                              secondary_type_list = None\<rparr>,
                      medium_list = Some [\<lparr>track_list = Some [\<lparr>number = Some [CHR 0xB2]\<rparr>],
                                            medium_track_count = Some 12\<rparr>]\<rparr>]\<rparr>]\<rparr>,
              w))
     ''Artist'' ''Track'' () =
   (Inr \<lparr>release_title = Some ''Album'', release_date = Some ''2012-03-01'',
         release_type = ''Album'', track_count = None, track_number = None, found = False\<rparr>,
    (), [Sleep 1000, Request (SearchRecordings (strict_query ''Artist'' ''Track''))])"
  by (simp add: get_track_prominence_def prominence_try_def process_recordings_def
      valid_releases_def keep_release_def get_or_def rg_get_def List.map_filter_simps
      best_valid_release_def bad_types_def extract_metrics_def extract_medium_def
      empty_result_def isdigit_def isdecimal_def py_int_def Let_def)

subsection \<open>Properties of the checkpointed runner\<close>

lemma get_track_prominence_Inr:
  "\<exists>r w' ev. get_track_prominence search a t w = (Inr r, w', ev)"
  by (auto simp: get_track_prominence_def split: prod.splits)

lemma run_tasks_total:
  "\<exists>st'. run_tasks search tasks st = Inr st'
      \<and> (\<forall>k. map_of (rs_results st) k \<noteq> None \<longrightarrow> map_of (rs_results st') k \<noteq> None)
      \<and> (\<forall>(a, t) \<in> set tasks. map_of (rs_results st') (composite_key a t) \<noteq> None)"
proof (induction tasks arbitrary: st)
  case Nil
  then show ?case by simp
next
  case (Cons task tasks)
  obtain artist track where task: "task = (artist, track)" by (cases task)
  let ?k = "composite_key artist track"
  show ?case
  proof (cases "map_of (rs_results st) ?k \<noteq> None")
    case True
    from Cons.IH [of st] obtain st' where
      st': "run_tasks search tasks st = Inr st'"
        "\<forall>k. map_of (rs_results st) k \<noteq> None \<longrightarrow> map_of (rs_results st') k \<noteq> None"
        "\<forall>(a, t) \<in> set tasks. map_of (rs_results st') (composite_key a t) \<noteq> None"
      by blast
    with True task show ?thesis by auto
  next
    case False
    from get_track_prominence_Inr [of search artist track "rs_world st"]
    obtain r w' ev where
      g: "get_track_prominence search artist track (rs_world st) = (Inr r, w', ev)"
      by blast
    define st1 where "st1 = st\<lparr>rs_results := AList.update ?k r (rs_results st),
                               rs_world := w', rs_events := rs_events st @ ev\<rparr>"
    define st2 where "st2 = st1\<lparr>rs_processed_since_save := rs_processed_since_save st1 + 1\<rparr>"
    define st3 where "st3 = (if save_interval \<le> rs_processed_since_save st2
                           then st2\<lparr>rs_data_out := Some (rs_results st2),
                                   rs_processed_since_save := 0\<rparr>
                           else st2)"
    have step: "run_tasks search (task # tasks) st = run_tasks search tasks st3"
      using False g task by (simp add: st1_def st2_def st3_def Let_def)
    have res3: "rs_results st3 = AList.update ?k r (rs_results st)"
      by (simp add: st3_def st2_def st1_def)
    from Cons.IH [of st3] obtain st' where
      st': "run_tasks search tasks st3 = Inr st'"
        "\<forall>k. map_of (rs_results st3) k \<noteq> None \<longrightarrow> map_of (rs_results st') k \<noteq> None"
        "\<forall>(a, t) \<in> set tasks. map_of (rs_results st') (composite_key a t) \<noteq> None"
      by blast
    have "map_of (rs_results st') ?k \<noteq> None"
      using st'(2) res3 by (simp add: update_conv')
    moreover have "\<forall>k. map_of (rs_results st) k \<noteq> None \<longrightarrow> map_of (rs_results st') k \<noteq> None"
      using st'(2) res3 by (simp add: update_conv')
    ultimately show ?thesis using step st' task by auto
  qed
qed

lemma run_tasks_all_cached:
  "(\<forall>(a, t) \<in> set tasks. map_of (rs_results st) (composite_key a t) \<noteq> None) \<Longrightarrow>
     run_tasks search tasks st = Inr st"
  by (induction tasks) auto

text \<open>
  Claim C5. The first run of the checkpointed runner always ends with the cache written
  to the file. A second run over the same work list, started from that file, skips every
  composite key \<^verbatim>\<open>"{artist} || {track}"\<close> (successful or not found), issues no request and
  no sleep, leaves the outside world as it was, and writes the same cache again.
\<close>

theorem main_run_twice:
  "\<exists>st1. main_run search tasks data_out w = Inr st1
      \<and> rs_data_out st1 = Some (rs_results st1)
      \<and> main_run search tasks (rs_data_out st1) (rs_world st1) =
          Inr \<lparr>rs_results = rs_results st1, rs_processed_since_save = 0,
               rs_data_out = rs_data_out st1, rs_world = rs_world st1, rs_events = []\<rparr>"
proof -
  let ?st0 = "\<lparr>rs_results = (case data_out of None \<Rightarrow> [] | Some loaded \<Rightarrow> loaded),
       rs_processed_since_save = 0, rs_data_out = data_out, rs_world = w, rs_events = []\<rparr>"
  from run_tasks_total [of search tasks ?st0] obtain st' where
    st': "run_tasks search tasks ?st0 = Inr st'"
      "\<forall>(a, t) \<in> set tasks. map_of (rs_results st') (composite_key a t) \<noteq> None"
    by blast
  let ?st1 = "st'\<lparr>rs_data_out := Some (rs_results st')\<rparr>"
  have first: "main_run search tasks data_out w = Inr ?st1"
    using st'(1) by (simp add: main_run_def)
  let ?st2 = "\<lparr>rs_results = rs_results st', rs_processed_since_save = 0,
               rs_data_out = Some (rs_results st'), rs_world = rs_world st', rs_events = []\<rparr>"
  have "run_tasks search tasks ?st2 = Inr ?st2"
    using st'(2) by (intro run_tasks_all_cached) simp
  then have second: "main_run search tasks (rs_data_out ?st1) (rs_world ?st1) = Inr ?st2"
    by (simp add: main_run_def)
  from first second show ?thesis by simp
qed

theorem main_run_twice_witness:
  "main_run (\<lambda>q w. (Inr \<lparr>recording_list = None\<rparr>, Suc w))
      [(''Muse'', ''Uprising''), (''Muse'', ''Uprising'')] None (0::nat) =
     Inr \<lparr>rs_results = [(''Muse || Uprising'', empty_result)], rs_processed_since_save = 1,
          rs_data_out = Some [(''Muse || Uprising'', empty_result)], rs_world = 2,
          rs_events = [Sleep 1000, Request (SearchRecordings (strict_query ''Muse'' ''Uprising'')),
                       Request (SearchRecordings ''Muse Uprising'')]\<rparr>
   \<and> main_run (\<lambda>q w. (Inr \<lparr>recording_list = None\<rparr>, Suc w))
      [(''Muse'', ''Uprising''), (''Muse'', ''Uprising'')]
      (Some [(''Muse || Uprising'', empty_result)]) (2::nat) =
     Inr \<lparr>rs_results = [(''Muse || Uprising'', empty_result)], rs_processed_since_save = 0,
          rs_data_out = Some [(''Muse || Uprising'', empty_result)], rs_world = 2,
          rs_events = []\<rparr>"
  using main_run_twice
    [of "\<lambda>q w. (Inr \<lparr>recording_list = None\<rparr>, Suc w)"
        "[(''Muse'', ''Uprising''), (''Muse'', ''Uprising'')]" None "0::nat"]
  by (simp add: main_run_def composite_key_def get_track_prominence_def prominence_try_def
      process_recordings_def get_or_def loose_query_def save_interval_def Let_def)

subsection \<open>Properties of the schema repair\<close>

lemma clean_redundant_columns_artist_name:
  "clean_redundant_columns
     [(''track_id'', [1, 2 :: int]), (''artist_name_x'', [10, 20]), (''artist_name_y'', [30, 40])] =
   Inr [(''track_id'', [1, 2]), (''artist_name'', [10, 20])]"
  by (simp add: clean_redundant_columns_def drop_columns_def cols_to_drop_def
      rename_columns_def endswith_def)

text \<open>
  Claim C8 does not hold of the code. \<^verbatim>\<open>col.replace('_x', '')\<close> removes every
  occurrence of \<^verbatim>\<open>_x\<close>, not the suffix alone: the left copy \<^verbatim>\<open>max_xcorr_x\<close> of a column
  \<^verbatim>\<open>max_xcorr\<close> is renamed to \<^verbatim>\<open>maxcorr\<close>, and \<^verbatim>\<open>a__xx_x\<close> becomes \<^verbatim>\<open>a_x\<close>, so a
  column with the suffix remains.
\<close>

theorem clean_redundant_columns_inner_x:
  "clean_redundant_columns
     [(''max_xcorr_x'', [10, 20 :: int]), (''max_xcorr_y'', [30, 40])] =
   Inr [(''maxcorr'', [10, 20])]
   \<and> clean_redundant_columns [(''a__xx_x'', [10, 20 :: int])] = Inr [(''a_x'', [10, 20])]"
  by (simp add: clean_redundant_columns_def drop_columns_def cols_to_drop_def
      rename_columns_def endswith_def)

subsection \<open>Properties of the entity-resolution pass\<close>

lemma retry_loop_events_aux:
  assumes "\<And>w r w1 events. attempt w = (r, w1, events) \<Longrightarrow> set events \<subseteq> A"
    and "range Sleep \<subseteq> A"
  shows "retry_loop left n attempt w = (r, w', events) \<Longrightarrow> set events \<subseteq> A"
proof (induction left arbitrary: n w r w' events)
  case 0
  then show ?case by simp
next
  case (Suc left)
  obtain r1 w1 ev1 where a: "attempt w = (r1, w1, ev1)" by (metis prod.exhaust)
  with assms(1) have ev1: "set ev1 \<subseteq> A" by blast
  show ?case
  proof (cases r1)
    case (Inr v)
    with a Suc.prems ev1 show ?thesis by simp
  next
    case (Inl e)
    show ?thesis
    proof (cases "left = 0")
      case True
      with a Inl Suc.prems ev1 show ?thesis by simp
    next
      case False
      obtain r2 w2 ev2 where l: "retry_loop left (Suc n) attempt w1 = (r2, w2, ev2)"
        by (metis prod.exhaust)
      with Suc.IH have "set ev2 \<subseteq> A" by blast
      moreover from a Inl False l Suc.prems
      have "events = ev1 @ Sleep (wait_exponential n) # ev2" by simp
      ultimately show ?thesis using ev1 assms(2) by auto
    qed
  qed
qed

lemma retry_loop_events:
  assumes "retry_loop left n attempt w = (r, w', events)"
    and "\<And>w r w1 events. attempt w = (r, w1, events) \<Longrightarrow> set events \<subseteq> A"
    and "range Sleep \<subseteq> A"
  shows "set events \<subseteq> A"
  using retry_loop_events_aux [of attempt A left n w r w' events] assms by blast

lemma search_musicbrainz_events:
  assumes "search_musicbrainz http name w = (r, w', events)"
  shows "set events \<subseteq> insert (Request (ArtistSearch name)) (range Sleep)"
proof -
  have "set ev \<subseteq> insert (Request (ArtistSearch name)) (range Sleep)"
    if "search_musicbrainz_attempt http name w0 = (r0, w1, ev)" for w0 r0 w1 ev
    using that
    by (auto simp: search_musicbrainz_attempt_def Let_def
        split: prod.splits sum.splits if_splits option.splits list.splits)
  note att = this
  from assms have "retry_loop 3 1 (search_musicbrainz_attempt http name) w = (r, w', events)"
    by (simp add: search_musicbrainz_def retry_def)
  then show ?thesis
    by (rule retry_loop_events) (use att in auto)
qed

lemma get_wikidata_qid_events:
  assumes "get_wikidata_qid_from_mb http m w = (r, w', events)"
  shows "set events \<subseteq> insert (Request (ArtistLookup m)) (range Sleep)"
proof -
  have "set ev \<subseteq> insert (Request (ArtistLookup m)) (range Sleep)"
    if "get_wikidata_qid_attempt http m w0 = (r0, w1, ev)" for w0 r0 w1 ev
    using that
    by (auto simp: get_wikidata_qid_attempt_def Let_def
        split: prod.splits sum.splits if_splits option.splits)
  note att = this
  from assms have "retry_loop 3 1 (get_wikidata_qid_attempt http m) w = (r, w', events)"
    by (simp add: get_wikidata_qid_from_mb_def retry_def)
  then show ?thesis
    by (rule retry_loop_events) (use att in auto)
qed

lemma enrich_from_wikidata_events:
  assumes "enrich_from_wikidata http q w = (r, w', events)"
  shows "set events \<subseteq> insert (Request (Sparql q)) (range Sleep)"
proof -
  have "set ev \<subseteq> insert (Request (Sparql q)) (range Sleep)"
    if "enrich_from_wikidata_attempt http q w0 = (r0, w1, ev)" for w0 r0 w1 ev
    using that
    by (auto simp: enrich_from_wikidata_attempt_def Let_def
        split: prod.splits sum.splits if_splits option.splits)
  note att = this
  from assms have "retry_loop 3 1 (enrich_from_wikidata_attempt http q) w = (r, w', events)"
    by (simp add: enrich_from_wikidata_def retry_def)
  then show ?thesis
    by (rule retry_loop_events) (use att in auto)
qed

lemma fetch_and_build_record_events:
  assumes "fetch_and_build_record http name w = (r, w', events)"
  shows "set events \<subseteq> insert (Request (ArtistSearch name))
           (range Sleep \<union> range (\<lambda>m. Request (ArtistLookup m)) \<union> range (\<lambda>q. Request (Sparql q)))"
    (is "_ \<subseteq> ?A")
proof -
  obtain r1 w1 ev1 where s: "search_musicbrainz http name w = (r1, w1, ev1)"
    by (metis prod.exhaust)
  from search_musicbrainz_events [OF s] have e1: "set ev1 \<subseteq> ?A"
    by auto
  show ?thesis
  proof (cases r1)
    case (Inl e)
    with s assms e1 show ?thesis by (simp add: fetch_and_build_record_def)
  next
    case (Inr hit)
    show ?thesis
    proof (cases hit)
      case None
      with Inr s assms e1 show ?thesis by (simp add: fetch_and_build_record_def)
    next
      case (Some mb_data)
      obtain r2 w2 ev2 where
        g: "get_wikidata_qid_from_mb http (hit_mbid mb_data) w1 = (r2, w2, ev2)"
        by (metis prod.exhaust)
      from get_wikidata_qid_events [OF g] have e2: "set ev2 \<subseteq> ?A"
        by auto
      have e3: "set ev3 \<subseteq> ?A"
        if "enrich_from_wikidata http q w2 = (r3, w3, ev3)" for q r3 w3 ev3
        using enrich_from_wikidata_events [OF that] by auto
      from assms s Inr Some g e1 e2 show ?thesis
        by (auto simp: fetch_and_build_record_def Let_def
            split: sum.splits option.splits if_splits prod.splits dest!: e3)
    qed
  qed
qed

lemma fetch_and_build_record_other:
  assumes "fetch_and_build_record http name w = (r, w', events)" and "key \<noteq> name"
  shows "Request (ArtistSearch key) \<notin> set events"
  using fetch_and_build_record_events [OF assms(1)] assms(2)
  by auto

lemma process_tokens_settled:
  assumes "\<not> needs_processing catalog key"
    and "process_tokens http tokens catalog w = (x, catalog', w', events)"
  shows "Request (ArtistSearch key) \<notin> set events \<and> map_of catalog' key = map_of catalog key"
  using assms
proof (induction tokens arbitrary: catalog w x catalog' w' events)
  case Nil
  then show ?case by simp
next
  case (Cons token tokens)
  show ?case
  proof (cases "needs_processing catalog token")
    case False
    with Cons show ?thesis by simp
  next
    case True
    with Cons.prems(1) have ne: "key \<noteq> token" by auto
    obtain r w1 ev1 where f: "fetch_and_build_record http token w = (r, w1, ev1)"
      by (metis prod.exhaust)
    from fetch_and_build_record_other [OF f ne]
    have no1: "Request (ArtistSearch key) \<notin> set ev1" .
    show ?thesis
    proof (cases r)
      case (Inl e)
      with True f Cons.prems(2) no1 show ?thesis by simp
    next
      case (Inr v)
      let ?c = "AList.update token (case v of None \<Rightarrow> Null | Some r \<Rightarrow> Rec r) catalog"
      obtain x2 c2 w2 ev2 where p: "process_tokens http tokens ?c w1 = (x2, c2, w2, ev2)"
        by (metis prod.exhaust)
      have same: "map_of ?c key = map_of catalog key"
        using ne by (simp add: update_conv')
      then have "\<not> needs_processing ?c key"
        using Cons.prems(1) by (simp add: needs_processing_def)
      from Cons.IH [OF this p] same
      have "Request (ArtistSearch key) \<notin> set ev2" "map_of c2 key = map_of catalog key"
        by simp_all
      with True f Inr p Cons.prems(2) no1 show ?thesis by auto
    qed
  qed
qed

lemma second_pass_settled:
  assumes "\<not> needs_processing catalog key"
    and "second_pass http raw_clean catalog w = (x, catalog', w', events)"
  shows "Request (ArtistSearch key) \<notin> set events \<and> map_of catalog' key = map_of catalog key"
proof (cases "map_of catalog raw_clean = None \<or> map_of catalog raw_clean = Some Null")
  case True
  with assms(2) have "process_tokens http (split_collaborations raw_clean) catalog w =
      (x, catalog', w', events)"
    by (simp add: second_pass_def)
  from process_tokens_settled [OF assms(1) this] show ?thesis .
next
  case False
  with assms(2) show ?thesis by (simp add: second_pass_def)
qed

lemma process_raw_entry_settled:
  assumes "\<not> needs_processing catalog key"
    and "process_raw_entry http raw_string catalog w = (x, catalog', w', events)"
  shows "Request (ArtistSearch key) \<notin> set events \<and> map_of catalog' key = map_of catalog key"
proof (cases "needs_processing catalog (normalize_name raw_string)")
  case False
  with assms(2) have "second_pass http (normalize_name raw_string) catalog w =
      (x, catalog', w', events)"
    by (simp add: process_raw_entry_def)
  from second_pass_settled [OF assms(1) this] show ?thesis .
next
  case True
  let ?k = "normalize_name raw_string"
  from True assms(1) have ne: "key \<noteq> ?k" by auto
  obtain r w1 ev1 where f: "fetch_and_build_record http ?k w = (r, w1, ev1)"
    by (metis prod.exhaust)
  from fetch_and_build_record_other [OF f ne]
  have no1: "Request (ArtistSearch key) \<notin> set ev1" .
  show ?thesis
  proof (cases r)
    case (Inl e)
    with True f assms(2) no1 show ?thesis by (simp add: process_raw_entry_def)
  next
    case (Inr v)
    show ?thesis
    proof (cases v)
      case (Some hit)
      with Inr True f assms(2) no1 ne show ?thesis
        by (auto simp: process_raw_entry_def update_conv')
    next
      case None
      let ?c = "AList.update ?k Null catalog"
      obtain x2 c2 w2 ev2 where p: "second_pass http ?k ?c w1 = (x2, c2, w2, ev2)"
        by (metis prod.exhaust)
      have same: "map_of ?c key = map_of catalog key"
        using ne by (simp add: update_conv')
      then have "\<not> needs_processing ?c key"
        using assms(1) by (simp add: needs_processing_def)
      from second_pass_settled [OF this p] same
      have "Request (ArtistSearch key) \<notin> set ev2" "map_of c2 key = map_of catalog key"
        by simp_all
      with None Inr True f p assms(2) no1 show ?thesis
        by (auto simp: process_raw_entry_def)
    qed
  qed
qed

lemma process_entries_settled:
  assumes "\<not> needs_processing catalog key"
    and "process_entries http raw_entries catalog w = (x, catalog', w', events)"
  shows "Request (ArtistSearch key) \<notin> set events \<and> map_of catalog' key = map_of catalog key"
  using assms
proof (induction raw_entries arbitrary: catalog w x catalog' w' events)
  case Nil
  then show ?case by simp
next
  case (Cons raw_entry raw_entries)
  obtain x1 c1 w1 ev1 where p: "process_raw_entry http raw_entry catalog w = (x1, c1, w1, ev1)"
    by (metis prod.exhaust)
  from process_raw_entry_settled [OF Cons.prems(1) p]
  have one: "Request (ArtistSearch key) \<notin> set ev1" "map_of c1 key = map_of catalog key"
    by simp_all
  show ?case
  proof (cases x1)
    case (Some e)
    with p Cons.prems(2) one show ?thesis by simp
  next
    case None
    obtain x2 c2 w2 ev2 where q: "process_entries http raw_entries c1 w1 = (x2, c2, w2, ev2)"
      by (metis prod.exhaust)
    from one(2) Cons.prems(1) have "\<not> needs_processing c1 key"
      by (simp add: needs_processing_def)
    from Cons.IH [OF this q] one(2)
    have "Request (ArtistSearch key) \<notin> set ev2" "map_of c2 key = map_of catalog key"
      by simp_all
    with None p q Cons.prems(2) one show ?thesis by auto
  qed
qed

lemma settled_iff:
  "(\<not> needs_processing catalog key) =
     (map_of catalog key = Some Null
      \<or> (\<exists>r. map_of catalog key = Some (Rec r) \<and> qid r \<noteq> None))"
  by (auto simp: needs_processing_def split: option.splits entry.splits)

lemma process_raw_entry_resolved:
  assumes "map_of catalog (normalize_name raw_string) = Some (Rec r)" and "qid r \<noteq> None"
  shows "process_raw_entry http raw_string catalog w = (None, catalog, w, [])"
  using assms by (auto simp: process_raw_entry_def needs_processing_def second_pass_def Let_def)

text \<open>
  Claim C1, as the code has it. A key that the catalog maps to a record with a non-null
  QID, or to the explicit null failure marker, is never looked up again and keeps its
  value: neither as the whitespace-normalized full string nor as a split token, neither in
  this call of \<^verbatim>\<open>process_raw_entry\<close> nor in any later one of the run. When the
  normalized key of the raw string itself has a record with a non-null QID, the call
  issues no request at all and leaves the catalog as it is.
\<close>

theorem process_raw_entry_idempotent:
  assumes "map_of catalog key = Some Null
           \<or> (\<exists>r. map_of catalog key = Some (Rec r) \<and> qid r \<noteq> None)"
  shows "(case process_raw_entry http raw_string catalog w of
            (x, catalog', w', events) \<Rightarrow>
              Request (ArtistSearch key) \<notin> set events \<and> map_of catalog' key = map_of catalog key)
       \<and> (case process_entries http raw_entries catalog w of
            (x, catalog', w', events) \<Rightarrow>
              Request (ArtistSearch key) \<notin> set events \<and> map_of catalog' key = map_of catalog key)
       \<and> (key = normalize_name raw_string \<and> map_of catalog key \<noteq> Some Null \<longrightarrow>
            process_raw_entry http raw_string catalog w = (None, catalog, w, []))"
proof -
  from assms have s: "\<not> needs_processing catalog key" by (simp add: settled_iff)
  have a: "case process_raw_entry http raw_string catalog w of
            (x, catalog', w', events) \<Rightarrow>
              Request (ArtistSearch key) \<notin> set events \<and> map_of catalog' key = map_of catalog key"
  proof -
    obtain x c' w' ev where p: "process_raw_entry http raw_string catalog w = (x, c', w', ev)"
      by (metis prod.exhaust)
    from process_raw_entry_settled [OF s p] p show ?thesis by simp
  qed
  have b: "case process_entries http raw_entries catalog w of
            (x, catalog', w', events) \<Rightarrow>
              Request (ArtistSearch key) \<notin> set events \<and> map_of catalog' key = map_of catalog key"
  proof -
    obtain x c' w' ev where p: "process_entries http raw_entries catalog w = (x, c', w', ev)"
      by (metis prod.exhaust)
    from process_entries_settled [OF s p] p show ?thesis by simp
  qed
  have c: "key = normalize_name raw_string \<and> map_of catalog key \<noteq> Some Null \<longrightarrow>
            process_raw_entry http raw_string catalog w = (None, catalog, w, [])"
  proof
    assume k: "key = normalize_name raw_string \<and> map_of catalog key \<noteq> Some Null"
    with assms obtain r where "map_of catalog (normalize_name raw_string) = Some (Rec r)"
      "qid r \<noteq> None" by auto
    then show "process_raw_entry http raw_string catalog w = (None, catalog, w, [])"
      by (rule process_raw_entry_resolved)
  qed
  from a b c show ?thesis by blast
qed


lemma process_raw_entry_null_marker_run:
  "process_raw_entry (\<lambda>rq w. (Inr \<lparr>status_code = 404, body = None\<rparr>, w)) ''  A  &   B ''
     [(''A & B'', Null), (''A'', Rec \<lparr>mbid = ''m1'', qid = Some ''Q1'', nationality = None\<rparr>)]
     () =
   (None,
    [(''A & B'', Null), (''A'', Rec \<lparr>mbid = ''m1'', qid = Some ''Q1'', nationality = None\<rparr>),
     (''B'', Null)],
    (), [Request (ArtistSearch ''B''), Sleep 1200])"
  by code_simp

theorem process_raw_entry_idempotent_witness:
  "map_of [(''A & B'', Null),
           (''A'', Rec \<lparr>mbid = ''m1'', qid = Some ''Q1'', nationality = None\<rparr>)] ''A & B'' =
     Some Null
   \<and> process_raw_entry (\<lambda>rq w. (Inr \<lparr>status_code = 404, body = None\<rparr>, w)) ''  A  &   B ''
       [(''A & B'', Null), (''A'', Rec \<lparr>mbid = ''m1'', qid = Some ''Q1'', nationality = None\<rparr>)]
       () =
     (None,
      [(''A & B'', Null), (''A'', Rec \<lparr>mbid = ''m1'', qid = Some ''Q1'', nationality = None\<rparr>),
       (''B'', Null)],
      (), [Request (ArtistSearch ''B''), Sleep 1200])
   \<and> Request (ArtistSearch ''A & B'') \<notin> set [Request (ArtistSearch ''B''), Sleep 1200]"
  using process_raw_entry_idempotent
    [of "[(''A & B'', Null),
          (''A'', Rec \<lparr>mbid = ''m1'', qid = Some ''Q1'', nationality = None\<rparr>)]"
        "''A & B''" "\<lambda>rq w. (Inr \<lparr>status_code = 404, body = None\<rparr>, w)" "''  A  &   B ''" "()" "[]"]
    process_raw_entry_null_marker_run
  by simp

text \<open>
  A record is not enough to stop the lookup: a key whose record has no QID is queried
  again, and when that query finds nothing the record is replaced by the null marker.
\<close>

theorem process_raw_entry_requery_counterexample:
  "process_raw_entry (\<lambda>rq w. (Inr \<lparr>status_code = 404, body = None\<rparr>, w)) ''A''
     [(''A'', Rec \<lparr>mbid = ''m1'', qid = None, nationality = Some ''Brazil''\<rparr>)] () =
   (None, [(''A'', Null)], (), [Request (ArtistSearch ''A''), Sleep 1200])"
  by code_simp

lemma wait_exponential_bounds: "2000 \<le> wait_exponential n \<and> wait_exponential n \<le> 10000"
  by (simp add: wait_exponential_def)

lemma retry_loop_waits:
  assumes "\<And>w r w1 events. attempt w = (r, w1, events) \<Longrightarrow> set events \<subseteq> A"
    and "\<And>k. Sleep (wait_exponential k) \<in> A"
  shows "retry_loop left n attempt w = (r, w', events) \<Longrightarrow> set events \<subseteq> A"
proof (induction left arbitrary: n w r w' events)
  case 0
  then show ?case by simp
next
  case (Suc left)
  obtain r1 w1 ev1 where a: "attempt w = (r1, w1, ev1)" by (metis prod.exhaust)
  with assms(1) have ev1: "set ev1 \<subseteq> A" by blast
  obtain r2 w2 ev2 where l: "retry_loop left (Suc n) attempt w1 = (r2, w2, ev2)"
    by (metis prod.exhaust)
  with Suc.IH have ev2: "set ev2 \<subseteq> A" by blast
  from a l Suc.prems ev1 ev2 assms(2) [of n] show ?case
    by (auto split: sum.splits if_splits)
qed

lemma retry_loop_count:
  assumes "\<And>w r w1 events. attempt w = (r, w1, events) \<Longrightarrow> length (filter P events) = 1"
    and "\<And>d. \<not> P (Sleep d)"
  shows "retry_loop left n attempt w = (r, w', events) \<Longrightarrow>
           length (filter P events) \<le> left
           \<and> (\<forall>e. r = Inl e \<longrightarrow> e = RetryError \<and> length (filter P events) = left)"
proof (induction left arbitrary: n w r w' events)
  case 0
  then show ?case by auto
next
  case (Suc left)
  obtain r1 w1 ev1 where a: "attempt w = (r1, w1, ev1)" by (metis prod.exhaust)
  with assms(1) have ev1: "length (filter P ev1) = 1" by blast
  obtain r2 w2 ev2 where l: "retry_loop left (Suc n) attempt w1 = (r2, w2, ev2)"
    by (metis prod.exhaust)
  from Suc.IH [OF l] have ev2: "length (filter P ev2) \<le> left"
    "\<forall>e. r2 = Inl e \<longrightarrow> e = RetryError \<and> length (filter P ev2) = left" by simp_all
  from a l Suc.prems ev1 ev2 assms(2) show ?case
    by (auto split: sum.splits if_splits)
qed

lemma search_musicbrainz_attempt_one_request:
  "search_musicbrainz_attempt http name w = (r, w1, events) \<Longrightarrow>
     length (filter (\<lambda>ev. ev = Request (ArtistSearch name)) events) = 1"
  by (auto simp: search_musicbrainz_attempt_def Let_def
      split: prod.splits sum.splits if_splits option.splits list.splits)

lemma search_musicbrainz_attempt_events:
  "search_musicbrainz_attempt http name w = (r, w1, events) \<Longrightarrow>
     set events \<subseteq> {Request (ArtistSearch name), Sleep 1200}"
  by (auto simp: search_musicbrainz_attempt_def Let_def
      split: prod.splits sum.splits if_splits option.splits list.splits)

lemma search_musicbrainz_sleeps:
  assumes "search_musicbrainz http name w = (r, w', events)" and "Sleep d \<in> set events"
  shows "d = 1200 \<or> (2000 \<le> d \<and> d \<le> 10000)"
proof -
  let ?A = "insert (Request (ArtistSearch name))
              {Sleep d |d. d = 1200 \<or> (2000 \<le> d \<and> d \<le> 10000)}"
  from assms(1) have "retry_loop 3 1 (search_musicbrainz_attempt http name) w = (r, w', events)"
    by (simp add: search_musicbrainz_def retry_def)
  then have "set events \<subseteq> ?A"
  proof (rule retry_loop_waits [rotated 2])
    fix w0 r0 w1 ev
    assume "search_musicbrainz_attempt http name w0 = (r0, w1, ev)"
    from search_musicbrainz_attempt_events [OF this] show "set ev \<subseteq> ?A" by auto
  next
    fix k
    show "Sleep (wait_exponential k) \<in> ?A" using wait_exponential_bounds [of k] by simp
  qed
  with assms(2) show ?thesis by auto
qed

lemma search_musicbrainz_count:
  assumes "search_musicbrainz http name w = (r, w', events)"
  shows "length (filter (\<lambda>ev. ev = Request (ArtistSearch name)) events) \<le> 3
         \<and> (\<forall>e. r = Inl e \<longrightarrow> e = RetryError
               \<and> length (filter (\<lambda>ev. ev = Request (ArtistSearch name)) events) = 3)"
proof -
  from assms have "retry_loop 3 1 (search_musicbrainz_attempt http name) w = (r, w', events)"
    by (simp add: search_musicbrainz_def retry_def)
  then show ?thesis
    by (rule retry_loop_count [rotated 2])
       (auto dest: search_musicbrainz_attempt_one_request)
qed

lemma fetch_and_build_record_search_failed:
  assumes "search_musicbrainz http name w = (Inl e, w', events)"
  shows "fetch_and_build_record http name w = (Inr None, w', events)"
  using assms by (simp add: fetch_and_build_record_def)

lemma search_musicbrainz_not_200:
  assumes "http (ArtistSearch name) w = (Inr resp, w1)" and "status_code resp \<noteq> 200"
  shows "search_musicbrainz http name w =
           (Inr None, w1, [Request (ArtistSearch name), Sleep 1200])"
  using assms
  by (simp add: search_musicbrainz_def retry_def eval_nat_numeral
      search_musicbrainz_attempt_def)

lemma retry_first_returns:
  assumes "attempt w = (Inr v, w1, ev1)"
  shows "retry attempt w = (Inr v, w1, ev1)"
  using assms by (simp add: retry_def eval_nat_numeral)

lemma retry_second_returns:
  assumes "attempt w = (Inl e1, w1, ev1)" and "attempt w1 = (Inr v, w2, ev2)"
  shows "retry attempt w = (Inr v, w2, ev1 @ Sleep 2000 # ev2)"
  using assms by (simp add: retry_def eval_nat_numeral wait_exponential_def)

lemma retry_third_returns:
  assumes "attempt w = (Inl e1, w1, ev1)" and "attempt w1 = (Inl e2, w2, ev2)"
    and "attempt w2 = (Inr v, w3, ev3)"
  shows "retry attempt w = (Inr v, w3, ev1 @ Sleep 2000 # ev2 @ Sleep 2000 # ev3)"
  using assms by (simp add: retry_def eval_nat_numeral wait_exponential_def)

lemma retry_exhausted:
  assumes "attempt w = (Inl e1, w1, ev1)" and "attempt w1 = (Inl e2, w2, ev2)"
    and "attempt w2 = (Inl e3, w3, ev3)"
  shows "retry attempt w = (Inl RetryError, w3, ev1 @ Sleep 2000 # ev2 @ Sleep 2000 # ev3)"
  using assms by (simp add: retry_def eval_nat_numeral wait_exponential_def)

lemma search_musicbrainz_attempt_raises:
  "http (ArtistSearch name) w = (Inl e, w1) \<Longrightarrow>
     search_musicbrainz_attempt http name w = (Inl e, w1, [Request (ArtistSearch name)])"
  "http (ArtistSearch name) w = (Inr resp, w1) \<Longrightarrow> status_code resp = 200 \<Longrightarrow>
     body resp = None \<Longrightarrow>
     search_musicbrainz_attempt http name w =
       (Inl JSONDecodeError, w1, [Request (ArtistSearch name), Sleep 1200])"
  by (simp_all add: search_musicbrainz_attempt_def)

text \<open>
  Claim C3, as the code has it. A lookup through \<^verbatim>\<open>search_musicbrainz\<close> issues at most
  three requests. An attempt raises when the request times out or the body is malformed;
  an attempt that raises is followed by a wait of 2 seconds (within the bounds of 2 and
  10 seconds) and the next attempt, whose result is the result of the lookup when it
  returns; the third such failure raises \<^verbatim>\<open>RetryError\<close>, which \<^verbatim>\<open>fetch_and_build_record\<close>
  catches: its caller gets the not-found value \<^verbatim>\<open>None\<close>. A response whose status is not
  200 is not retried: the lookup returns \<^verbatim>\<open>None\<close> after that one request.
\<close>

theorem search_musicbrainz_gives_up:
  "(case search_musicbrainz http name w of
      (r, w', events) \<Rightarrow>
        length (filter (\<lambda>ev. ev = Request (ArtistSearch name)) events) \<le> 3
        \<and> (\<forall>d. Sleep d \<in> set events \<longrightarrow> d = 1200 \<or> (2000 \<le> d \<and> d \<le> 10000))
        \<and> (\<forall>e. r = Inl e \<longrightarrow>
              e = RetryError
              \<and> length (filter (\<lambda>ev. ev = Request (ArtistSearch name)) events) = 3
              \<and> fetch_and_build_record http name w = (Inr None, w', events)))
   \<and> (\<forall>resp w1. http (ArtistSearch name) w = (Inr resp, w1) \<and> status_code resp \<noteq> 200 \<longrightarrow>
         search_musicbrainz http name w =
           (Inr None, w1, [Request (ArtistSearch name), Sleep 1200]))
   \<and> (\<forall>e w1. http (ArtistSearch name) w = (Inl e, w1) \<longrightarrow>
         search_musicbrainz_attempt http name w = (Inl e, w1, [Request (ArtistSearch name)]))
   \<and> (\<forall>resp w1. http (ArtistSearch name) w = (Inr resp, w1) \<and> status_code resp = 200
           \<and> body resp = None \<longrightarrow>
         search_musicbrainz_attempt http name w =
           (Inl JSONDecodeError, w1, [Request (ArtistSearch name), Sleep 1200]))
   \<and> (\<forall>v w1 ev1. search_musicbrainz_attempt http name w = (Inr v, w1, ev1) \<longrightarrow>
         search_musicbrainz http name w = (Inr v, w1, ev1))
   \<and> (\<forall>e1 w1 ev1 v w2 ev2.
         search_musicbrainz_attempt http name w = (Inl e1, w1, ev1)
         \<and> search_musicbrainz_attempt http name w1 = (Inr v, w2, ev2) \<longrightarrow>
         search_musicbrainz http name w = (Inr v, w2, ev1 @ Sleep 2000 # ev2))
   \<and> (\<forall>e1 w1 ev1 e2 w2 ev2 v w3 ev3.
         search_musicbrainz_attempt http name w = (Inl e1, w1, ev1)
         \<and> search_musicbrainz_attempt http name w1 = (Inl e2, w2, ev2)
         \<and> search_musicbrainz_attempt http name w2 = (Inr v, w3, ev3) \<longrightarrow>
         search_musicbrainz http name w =
           (Inr v, w3, ev1 @ Sleep 2000 # ev2 @ Sleep 2000 # ev3))
   \<and> (\<forall>e1 w1 ev1 e2 w2 ev2 e3 w3 ev3.
         search_musicbrainz_attempt http name w = (Inl e1, w1, ev1)
         \<and> search_musicbrainz_attempt http name w1 = (Inl e2, w2, ev2)
         \<and> search_musicbrainz_attempt http name w2 = (Inl e3, w3, ev3) \<longrightarrow>
         search_musicbrainz http name w =
           (Inl RetryError, w3, ev1 @ Sleep 2000 # ev2 @ Sleep 2000 # ev3)
         \<and> fetch_and_build_record http name w =
           (Inr None, w3, ev1 @ Sleep 2000 # ev2 @ Sleep 2000 # ev3))"
proof (intro conjI)
  obtain r w' events where s: "search_musicbrainz http name w = (r, w', events)"
    by (metis prod.exhaust)
  have "length (filter (\<lambda>ev. ev = Request (ArtistSearch name)) events) \<le> 3
        \<and> (\<forall>d. Sleep d \<in> set events \<longrightarrow> d = 1200 \<or> (2000 \<le> d \<and> d \<le> 10000))
        \<and> (\<forall>e. r = Inl e \<longrightarrow>
              e = RetryError
              \<and> length (filter (\<lambda>ev. ev = Request (ArtistSearch name)) events) = 3
              \<and> fetch_and_build_record http name w = (Inr None, w', events))"
    using search_musicbrainz_count [OF s] search_musicbrainz_sleeps [OF s]
      fetch_and_build_record_search_failed [of http name w _ w' events] s
    by auto
  then show "case search_musicbrainz http name w of
      (r, w', events) \<Rightarrow>
        length (filter (\<lambda>ev. ev = Request (ArtistSearch name)) events) \<le> 3
        \<and> (\<forall>d. Sleep d \<in> set events \<longrightarrow> d = 1200 \<or> (2000 \<le> d \<and> d \<le> 10000))
        \<and> (\<forall>e. r = Inl e \<longrightarrow>
              e = RetryError
              \<and> length (filter (\<lambda>ev. ev = Request (ArtistSearch name)) events) = 3
              \<and> fetch_and_build_record http name w = (Inr None, w', events))"
    unfolding s prod.case .
next
  show "\<forall>resp w1. http (ArtistSearch name) w = (Inr resp, w1) \<and> status_code resp \<noteq> 200 \<longrightarrow>
         search_musicbrainz http name w =
           (Inr None, w1, [Request (ArtistSearch name), Sleep 1200])"
    using search_musicbrainz_not_200 [of http name w] by blast
next
  show "\<forall>e w1. http (ArtistSearch name) w = (Inl e, w1) \<longrightarrow>
         search_musicbrainz_attempt http name w = (Inl e, w1, [Request (ArtistSearch name)])"
    using search_musicbrainz_attempt_raises(1) [of http name w] by blast
next
  show "\<forall>resp w1. http (ArtistSearch name) w = (Inr resp, w1) \<and> status_code resp = 200
           \<and> body resp = None \<longrightarrow>
         search_musicbrainz_attempt http name w =
           (Inl JSONDecodeError, w1, [Request (ArtistSearch name), Sleep 1200])"
    using search_musicbrainz_attempt_raises(2) [of http name w] by blast
next
  show "\<forall>v w1 ev1. search_musicbrainz_attempt http name w = (Inr v, w1, ev1) \<longrightarrow>
         search_musicbrainz http name w = (Inr v, w1, ev1)"
    unfolding search_musicbrainz_def
    using retry_first_returns [of "search_musicbrainz_attempt http name" w] by blast
next
  show "\<forall>e1 w1 ev1 v w2 ev2.
         search_musicbrainz_attempt http name w = (Inl e1, w1, ev1)
         \<and> search_musicbrainz_attempt http name w1 = (Inr v, w2, ev2) \<longrightarrow>
         search_musicbrainz http name w = (Inr v, w2, ev1 @ Sleep 2000 # ev2)"
    unfolding search_musicbrainz_def
    using retry_second_returns [of "search_musicbrainz_attempt http name" w] by blast
next
  show "\<forall>e1 w1 ev1 e2 w2 ev2 v w3 ev3.
         search_musicbrainz_attempt http name w = (Inl e1, w1, ev1)
         \<and> search_musicbrainz_attempt http name w1 = (Inl e2, w2, ev2)
         \<and> search_musicbrainz_attempt http name w2 = (Inr v, w3, ev3) \<longrightarrow>
         search_musicbrainz http name w =
           (Inr v, w3, ev1 @ Sleep 2000 # ev2 @ Sleep 2000 # ev3)"
    unfolding search_musicbrainz_def
    using retry_third_returns [of "search_musicbrainz_attempt http name" w] by blast
next
  show "\<forall>e1 w1 ev1 e2 w2 ev2 e3 w3 ev3.
         search_musicbrainz_attempt http name w = (Inl e1, w1, ev1)
         \<and> search_musicbrainz_attempt http name w1 = (Inl e2, w2, ev2)
         \<and> search_musicbrainz_attempt http name w2 = (Inl e3, w3, ev3) \<longrightarrow>
         search_musicbrainz http name w =
           (Inl RetryError, w3, ev1 @ Sleep 2000 # ev2 @ Sleep 2000 # ev3)
         \<and> fetch_and_build_record http name w =
           (Inr None, w3, ev1 @ Sleep 2000 # ev2 @ Sleep 2000 # ev3)"
  proof (intro allI impI)
    fix e1 w1 ev1 e2 w2 ev2 e3 w3 ev3
    assume h: "search_musicbrainz_attempt http name w = (Inl e1, w1, ev1)
         \<and> search_musicbrainz_attempt http name w1 = (Inl e2, w2, ev2)
         \<and> search_musicbrainz_attempt http name w2 = (Inl e3, w3, ev3)"
    then have s: "search_musicbrainz http name w =
           (Inl RetryError, w3, ev1 @ Sleep 2000 # ev2 @ Sleep 2000 # ev3)"
      unfolding search_musicbrainz_def
      using retry_exhausted [of "search_musicbrainz_attempt http name" w] by blast
    from s fetch_and_build_record_search_failed [OF s]
    show "search_musicbrainz http name w =
           (Inl RetryError, w3, ev1 @ Sleep 2000 # ev2 @ Sleep 2000 # ev3)
         \<and> fetch_and_build_record http name w =
           (Inr None, w3, ev1 @ Sleep 2000 # ev2 @ Sleep 2000 # ev3)"
      by (rule conjI)
  qed
qed

lemma search_musicbrainz_timeouts_run:
  "search_musicbrainz (\<lambda>rq w. (Inl RequestException, Suc w)) ''Muse'' (0::nat) =
     (Inl RetryError, 3,
      [Request (ArtistSearch ''Muse''), Sleep 2000, Request (ArtistSearch ''Muse''),
       Sleep 2000, Request (ArtistSearch ''Muse'')])"
  by code_simp

theorem search_musicbrainz_gives_up_witness:
  "search_musicbrainz (\<lambda>rq w. (Inl RequestException, Suc w)) ''Muse'' (0::nat) =
     (Inl RetryError, 3,
      [Request (ArtistSearch ''Muse''), Sleep 2000, Request (ArtistSearch ''Muse''),
       Sleep 2000, Request (ArtistSearch ''Muse'')])
   \<and> fetch_and_build_record (\<lambda>rq w. (Inl RequestException, Suc w)) ''Muse'' (0::nat) =
     (Inr None, 3,
      [Request (ArtistSearch ''Muse''), Sleep 2000, Request (ArtistSearch ''Muse''),
       Sleep 2000, Request (ArtistSearch ''Muse'')])"
  using search_musicbrainz_gives_up
      [where http = "\<lambda>rq w. (Inl RequestException, Suc w)" and name = "''Muse''" and w = "0::nat"]
    search_musicbrainz_timeouts_run
  by simp

text \<open>
  A status that is not 2xx is not retried: on a 503 the lookup issues one request and
  returns \<^verbatim>\<open>None\<close>, which the entity-resolution pass records as a failed lookup.
\<close>

theorem search_musicbrainz_503_counterexample:
  "search_musicbrainz (\<lambda>rq w. (Inr \<lparr>status_code = 503, body = None\<rparr>, Suc w)) ''Muse'' (0::nat) =
     (Inr None, 1, [Request (ArtistSearch ''Muse''), Sleep 1200])"
  by code_simp

subsection \<open>Pacing\<close>

lemma prominence_try_events:
  "snd (snd (prominence_try search a t result w)) = [Request (SearchRecordings (strict_query a t))]
   \<or> snd (snd (prominence_try search a t result w)) =
        [Request (SearchRecordings (strict_query a t)),
         Request (SearchRecordings (loose_query a t))]"
  by (auto simp: prominence_try_def Let_def split: prod.splits sum.splits)

text \<open>
  Claim C9, as the code has it. \<^verbatim>\<open>get_track_prominence\<close> sleeps one second at the start
  of every call, before its one or two searches, whatever their outcome. An attempt of
  \<^verbatim>\<open>search_musicbrainz\<close> or of \<^verbatim>\<open>get_wikidata_qid_from_mb\<close> sleeps 1.2 seconds after a
  request that returned a response, of any status and body, and does not sleep after a
  request that raised. An attempt of \<^verbatim>\<open>enrich_from_wikidata\<close> never sleeps.
\<close>

theorem pacing_sleeps:
  "(case get_track_prominence search a t w of
      (r, w', events) \<Rightarrow>
        events = [Sleep 1000, Request (SearchRecordings (strict_query a t))]
        \<or> events = [Sleep 1000, Request (SearchRecordings (strict_query a t)),
                     Request (SearchRecordings (loose_query a t))])
   \<and> (case search_musicbrainz_attempt http name v of
        (r, v', events) \<Rightarrow>
          events = Request (ArtistSearch name) #
                     (if isl (fst (http (ArtistSearch name) v)) then [] else [Sleep 1200]))
   \<and> (case get_wikidata_qid_attempt http m v of
        (r, v', events) \<Rightarrow>
          events = Request (ArtistLookup m) #
                     (if isl (fst (http (ArtistLookup m) v)) then [] else [Sleep 1200]))
   \<and> (case enrich_from_wikidata_attempt http q v of
        (r, v', events) \<Rightarrow> events = [Request (Sparql q)])"
proof (intro conjI)
  show "case get_track_prominence search a t w of
      (r, w', events) \<Rightarrow>
        events = [Sleep 1000, Request (SearchRecordings (strict_query a t))]
        \<or> events = [Sleep 1000, Request (SearchRecordings (strict_query a t)),
                     Request (SearchRecordings (loose_query a t))]"
    using prominence_try_events [of search a t empty_result w]
    by (auto simp: get_track_prominence_def split: prod.splits)
next
  show "case search_musicbrainz_attempt http name v of
        (r, v', events) \<Rightarrow>
          events = Request (ArtistSearch name) #
                     (if isl (fst (http (ArtistSearch name) v)) then [] else [Sleep 1200])"
    by (auto simp: search_musicbrainz_attempt_def Let_def
        split: prod.splits sum.splits option.splits list.splits)
next
  show "case get_wikidata_qid_attempt http m v of
        (r, v', events) \<Rightarrow>
          events = Request (ArtistLookup m) #
                     (if isl (fst (http (ArtistLookup m) v)) then [] else [Sleep 1200])"
    by (auto simp: get_wikidata_qid_attempt_def Let_def
        split: prod.splits sum.splits option.splits)
next
  show "case enrich_from_wikidata_attempt http q v of
        (r, v', events) \<Rightarrow> events = [Request (Sparql q)]"
    by (auto simp: enrich_from_wikidata_attempt_def Let_def
        split: prod.splits sum.splits option.splits)
qed

lemma pacing_run:
  "get_track_prominence (\<lambda>q w. (Inl WebServiceError, w)) ''Muse'' ''Uprising'' () =
     (Inr empty_result, (),
      [Sleep 1000, Request (SearchRecordings (strict_query ''Muse'' ''Uprising''))])
   \<and> search_musicbrainz_attempt (\<lambda>rq w. (Inr \<lparr>status_code = 503, body = None\<rparr>, w)) ''Muse'' () =
     (Inr None, (), [Request (ArtistSearch ''Muse''), Sleep 1200])"
  by code_simp

theorem pacing_sleeps_witness:
  "get_track_prominence (\<lambda>q w. (Inl WebServiceError, w)) ''Muse'' ''Uprising'' () =
     (Inr empty_result, (),
      [Sleep 1000, Request (SearchRecordings (strict_query ''Muse'' ''Uprising''))])
   \<and> search_musicbrainz_attempt (\<lambda>rq w. (Inr \<lparr>status_code = 503, body = None\<rparr>, w)) ''Muse'' () =
     (Inr None, (), [Request (ArtistSearch ''Muse''), Sleep 1200])"
  using pacing_sleeps
      [where search = "\<lambda>q w. (Inl WebServiceError, w)" and a = "''Muse''" and t = "''Uprising''"
         and w = "()" and http = "\<lambda>rq w. (Inr \<lparr>status_code = 503, body = None\<rparr>, w)"
         and name = "''Muse''" and v = "()"]
    pacing_run
  by simp

text \<open>
  A request is not always followed by the pacing sleep. When the strict search of
  \<^verbatim>\<open>get_track_prominence\<close> finds nothing the loose search follows it at once, and nothing
  follows the loose search; a request of \<^verbatim>\<open>search_musicbrainz\<close> that times out is followed
  by no sleep; a request of \<^verbatim>\<open>enrich_from_wikidata\<close> is never followed by one.
\<close>

theorem pacing_counterexample:
  "get_track_prominence (\<lambda>q w. (Inr \<lparr>recording_list = Some []\<rparr>, w)) ''Muse'' ''Uprising'' () =
     (Inr empty_result, (),
      [Sleep 1000, Request (SearchRecordings (strict_query ''Muse'' ''Uprising'')),
       Request (SearchRecordings (loose_query ''Muse'' ''Uprising''))])
   \<and> search_musicbrainz_attempt (\<lambda>rq w. (Inl RequestException, w)) ''Muse'' () =
     (Inl RequestException, (), [Request (ArtistSearch ''Muse'')])
   \<and> enrich_from_wikidata_attempt
       (\<lambda>rq w. (Inr \<lparr>status_code = 200,
                      body = Some \<lparr>artists = None, relations = None, results = None\<rparr>\<rparr>, w))
       ''Q1299'' () =
     (Inr [], (), [Request (Sparql ''Q1299'')])"
  by code_simp

end
